theory Spec2Isabelle
  imports Main "HOL-Library.Word" "HOL-Library.Log_Nat"
begin

unbundle bit_operations_syntax

section \<open>The live-view server of mtplvcap (mtp/server.go)\<close>

text \<open>
  A shallow embedding of \<^verbatim>\<open>src/mtp/server.go\<close>. The server talks to a camera through the
  \<^verbatim>\<open>Device\<close> collaborator, whose declaration is not part of the file: it is modelled as a
  deterministic function from the calls made so far and the current call to a reply.
  Every function of the server is a function on the server record that returns either its
  Go result and the updated record, or the run-time panic the Go code would raise.
\<close>

subsection \<open>Collaborator types (declared outside server.go)\<close>

text \<open>Modelled from the spec: the transport package (the \<^verbatim>\<open>Device\<close> interface, its codes,
  errors and property descriptors) and the model catalogue are not part of server.go.
  The types of this subsection follow the contract of the specification (the device
  gateway, the session state, the wire layout) and the way server.go uses them.\<close>

type_synonym byte = "8 word"

text \<open>Operation and property codes: only the names server.go uses. Their numeric values
  are declared in the transport package; server.go only compares them by name.\<close>

datatype opcode =
    OC_NIKON_DeviceReady
  | OC_NIKON_StartLiveView
  | OC_NIKON_EndLiveView
  | OC_NIKON_AfDrive
  | OC_NIKON_GetLiveViewImg

datatype propcode =
    DPC_NIKON_RecordingMedia
  | DPC_NIKON_Resolution
  | DPC_NIKON_LiveViewProhibitCondition
  | DPC_NIKON_LiveViewStatus
  | DPC_ExposureIndex
  | DPC_FNumber

text \<open>Response codes carried by an \<^verbatim>\<open>RCError\<close>: the two server.go branches on, and any other.\<close>

datatype response_code =
    RC_NIKON_InvalidStatus
  | RC_NIKON_NotLiveView
  | RC_other nat

text \<open>Errors a device call returns: a typed response-code error, the sentinel
  \<^verbatim>\<open>io.EOF\<close>, or any other error (given by its message).\<close>

datatype go_error =
    RCError response_code
  | io_EOF
  | other_error string

text \<open>Dynamic values (\<^verbatim>\<open>interface{}\<close>) found in a property descriptor: server.go asserts
  the types int8, uint16 and uint64; every other dynamic type is \<open>V_other\<close>.\<close>

datatype go_value =
    V_int8 "8 word"
  | V_uint16 "16 word"
  | V_uint64 "64 word"
  | V_other

text \<open>The form of a property descriptor: the enumeration form with its values, or any
  other form (also none).\<close>

datatype prop_form =
    PropDescEnumForm "go_value list"
  | other_form

record DevicePropDesc =
  CurrentValue :: go_value
  Form :: prop_form

record DeviceID =
  Manufacturer :: string
  Product :: string
  SerialNumber :: string

datatype RecordingMedia = RecordingMediaCard | RecordingMediaSDRAM

text \<open>The payloads server.go writes with \<^verbatim>\<open>SetDevicePropValue\<close>: one-field structs.\<close>

datatype payload =
    Media RecordingMedia
  | Resolution64 "64 word"
  | Resolution8 "8 word"
  | ISO "16 word"
  | FN "16 word"

datatype dev_call =
    ID
  | RunTransactionWithNoParams opcode
  | RunTransaction opcode "32 word list"
  | GetDevicePropValue propcode
  | GetDevicePropDesc propcode
  | SetDevicePropValue propcode payload

text \<open>What a device call leaves behind: the error it returns and what it wrote through
  the pointers it was given (only the part that belongs to the call is read).\<close>

record dev_reply =
  rep_err :: "go_error option"
  rep_data :: "byte list"
  rep_uint32 :: "32 word"
  rep_desc :: DevicePropDesc
  rep_id :: DeviceID

type_synonym Device = "dev_call list \<Rightarrow> dev_call \<Rightarrow> dev_reply"

datatype ResolutionType = ResolutionType8 | ResolutionType64 | ResolutionType_other

text \<open>Modelled from the spec: the \<^verbatim>\<open>Model\<close> struct of the model catalogue is not part of
  server.go. It supplies \<^verbatim>\<open>HeaderSize\<close> (byte offset where the JPEG begins in the live-view
  reply), \<^verbatim>\<open>QuirkSwitchMedia\<close> and \<^verbatim>\<open>ResolutionType\<close>; server.go also reads its
  \<^verbatim>\<open>Name\<close>.\<close>

record Model =
  Name :: string
  HeaderSize :: int
  QuirkSwitchMedia :: bool
  ResolutionType :: ResolutionType

datatype Rotation = Rotation0 | RotationMinus90 | Rotation90 | Rotation180

datatype AF = AFNotActive | AFFail | AFSuccess

subsection \<open>Types of server.go\<close>

record liveViewRaw =
  lvr_LVWidth :: "16 word"
  lvr_LVHeight :: "16 word"
  lvr_Width :: "16 word"
  lvr_Height :: "16 word"
  lvr_Dummy1 :: "byte list"
  lvr_FocusFrameWidth :: "16 word"
  lvr_FocusFrameHeight :: "16 word"
  lvr_FocusX :: "16 word"
  lvr_FocusY :: "16 word"
  lvr_Dummy2 :: "byte list"
  lvr_Rotation :: "8 word"
  lvr_Dummy3 :: "byte list"
  lvr_AutoFocus :: "8 word"
  lvr_Dummy4 :: "byte list"
  lvr_MovieTimeRemainInt :: "16 word"
  lvr_MovieTimeRemainFrac :: "16 word"
  lvr_Recording :: "8 word"

record LiveView =
  LVWidth :: "16 word"
  LVHeight :: "16 word"
  Width :: "16 word"
  Height :: "16 word"
  FocusFrameWidth :: "16 word"
  FocusFrameHeight :: "16 word"
  FocusX :: "16 word"
  FocusY :: "16 word"
  Rotation :: Rotation
  AutoFocus :: AF
  Recording :: bool
  JPEG :: "byte list"

record ControlPayload =
  AFInterval :: "int option"
  AFFocusNow :: "bool option"
  LRFPS :: "int option"
  cp_ISO :: "int option"
  cp_FN :: "string option"

record InfoPayload =
  info_ISO :: int
  info_ISOs :: "int list"
  info_FN :: string
  info_FNs :: "string list"
  info_AF :: int
  info_LR :: int
  info_Width :: int
  info_Height :: int
  info_FPS :: int
  info_Frame :: "byte list"

text \<open>Observable effects, in the order the code performs them: device calls, sleeps
  (a \<^verbatim>\<open>time.Duration\<close>, in nanoseconds), the rate-limiting sleep until the last capture
  time plus a duration, log lines (level, format string, arguments), the operations on
  the autofocus ticker and trigger channel, and the workers \<^verbatim>\<open>Run\<close> starts.\<close>

datatype log_level = Debug | Info | Warning | Error | Fatal

datatype log_arg =
    A_int int
  | A_str string
  | A_uint64s "64 word list"

datatype worker =
    workerLV
  | workerAF
  | frameCaptorSakura
  | workerBroadcastFrame
  | workerBroadcastInfo

datatype effect =
    Dev dev_call
  | Sleep int
  | Sleep_until_last_plus int
  | Log log_level string "log_arg list"
  | Ticker_Start
  | Ticker_Stop
  | Ticker_SetInterval int
  | afNowChan_send
  | eg_Go worker
  | eg_Wait

text \<open>The server. The fields follow \<^verbatim>\<open>LVServer\<close>; the mutexes, the websocket upgrader,
  the client registries, the error group and its context carry no data the functions
  below read. \<open>newFrameChan\<close> is the capacity-1 channel (whether a notification is
  pending), \<open>fpsRate\<close> counts the increments of the rate counter, the operations on
  \<^verbatim>\<open>afTicker\<close> and \<^verbatim>\<open>afNowChan\<close> are effects, and \<open>trace\<close> records the effects performed so
  far.\<close>

record LVServer =
  Frame :: "byte list"
  newFrameChan :: bool
  fpsRate :: nat
  info :: InfoPayload
  model :: Model
  dev :: "Device option"
  dummy :: bool
  maxResolution :: bool
  afInterval :: int
  lrFPS :: int
  trace :: "effect list"

text \<open>How a computation ends without returning: the run-time panics of Go that server.go
  can raise, and the process exit of \<^verbatim>\<open>log.Fatalf\<close>.\<close>

datatype panic =
    nil_pointer_dereference
  | index_out_of_range
  | slice_bounds_out_of_range
  | fatal_exit

datatype 'a outcome =
    Returned 'a LVServer
  | Panicked panic LVServer

text \<open>Sequencing: a panic ends the computation where it happens.\<close>

definition and_then :: "'a outcome \<Rightarrow> ('a \<Rightarrow> LVServer \<Rightarrow> 'b outcome) \<Rightarrow> 'b outcome" where
  "and_then m f = (case m of Returned a s \<Rightarrow> f a s | Panicked p s \<Rightarrow> Panicked p s)"

fun dev_history :: "effect list \<Rightarrow> dev_call list" where
  "dev_history [] = []"
| "dev_history (Dev c # es) = c # dev_history es"
| "dev_history (_ # es) = dev_history es"

text \<open>A call \<^verbatim>\<open>s.dev.M(...)\<close>: a method call on the nil interface panics; otherwise the
  device answers from the calls it has seen, and the call is recorded.\<close>

definition invoke :: "dev_call \<Rightarrow> LVServer \<Rightarrow> dev_reply outcome" where
  "invoke c s =
     (case dev s of
        None \<Rightarrow> Panicked nil_pointer_dereference s
      | Some d \<Rightarrow> Returned (d (dev_history (trace s)) c) (s\<lparr>trace := trace s @ [Dev c]\<rparr>))"

definition emit :: "effect \<Rightarrow> LVServer \<Rightarrow> LVServer" where
  "emit e s = s\<lparr>trace := trace s @ [e]\<rparr>"

datatype float64 = Finite rat | PosInf | NegInf | NaN

text \<open>Parameters from outside server.go: the text of a response-code error
  (\<^verbatim>\<open>RCError.Error()\<close>); what \<^verbatim>\<open>strconv.ParseFloat\<close> does on strings that are not plain
  decimal literals (exponents, hexadecimal, underscores, infinities, syntax errors); the
  implementation-dependent result of converting a float64 that uint16 cannot represent;
  \<^verbatim>\<open>strconv.FormatFloat(x, 'f', -1, 64)\<close>; the model catalogue (\<^verbatim>\<open>models.Match\<close>,
  \<^verbatim>\<open>models.Generic\<close>); the numeric value of a recording medium; and the zero values of
  the types declared outside server.go.\<close>

record env =
  RCError_Error :: "response_code \<Rightarrow> string"
  ParseFloat_nondecimal :: "string \<Rightarrow> string + float64"
  uint16_unrepresentable :: "float64 \<Rightarrow> 16 word"
  FormatFloat :: "float64 \<Rightarrow> string"
  Match :: "string \<Rightarrow> Model \<times> bool"
  Generic :: Model
  int8_of_RecordingMedia :: "RecordingMedia \<Rightarrow> 8 word"
  Model_zero :: Model
  Rotation_zero :: Rotation
  AF_zero :: AF

fun Error_of :: "env \<Rightarrow> go_error \<Rightarrow> string" where
  "Error_of E (RCError rc) = RCError_Error E rc"
| "Error_of E io_EOF = ''EOF''"
| "Error_of E (other_error m) = m"

subsection \<open>Decoding the live-view header\<close>

text \<open>A Go slice expression \<^verbatim>\<open>raw[lo:hi]\<close>: it panics unless \<open>0 \<le> lo \<le> hi\<close> and \<open>hi\<close> is
  within the capacity. The capacity is taken to be the length: where the expression is
  used below, \<open>hi\<close> is less than the length.\<close>

definition go_slice :: "'a list \<Rightarrow> int \<Rightarrow> int \<Rightarrow> 'a list option" where
  "go_slice xs lo hi =
     (if 0 \<le> lo \<and> lo \<le> hi \<and> hi \<le> int (length xs)
      then Some (take (nat hi - nat lo) (drop (nat lo) xs)) else None)"

definition be_int16 :: "byte \<Rightarrow> byte \<Rightarrow> 16 word" where
  "be_int16 hi lo = push_bit 8 (ucast hi) OR ucast lo"

text \<open>The big-endian readers of \<^verbatim>\<open>encoding/binary\<close>, on the bytes that remain.\<close>

definition read_int16 :: "byte list \<Rightarrow> 16 word \<times> byte list" where
  "read_int16 bs = (be_int16 (bs ! 0) (bs ! 1), drop 2 bs)"

definition read_int8 :: "byte list \<Rightarrow> 8 word \<times> byte list" where
  "read_int8 bs = (bs ! 0, drop 1 bs)"

definition read_bytes :: "nat \<Rightarrow> byte list \<Rightarrow> byte list \<times> byte list" where
  "read_bytes n bs = (take n bs, drop n bs)"

text \<open>\<^verbatim>\<open>binary.Read(r, binary.BigEndian, &lvr)\<close>: the reader must hold the 61 bytes of
  \<^verbatim>\<open>liveViewRaw\<close> (otherwise \<^verbatim>\<open>io.EOF\<close> or \<^verbatim>\<open>io.ErrUnexpectedEOF\<close>, here \<open>None\<close>); the
  fields are then decoded in declaration order.\<close>

definition liveViewRaw_size :: nat where
  "liveViewRaw_size = 2 + 2 + 2 + 2 + 8 + 2 + 2 + 2 + 2 + 5 + 1 + 10 + 1 + 15 + 2 + 2 + 1"

definition binary_Read :: "byte list \<Rightarrow> liveViewRaw option" where
  "binary_Read r =
     (if length r < liveViewRaw_size then None
      else
        let (lvw, r1) = read_int16 r;
            (lvh, r2) = read_int16 r1;
            (w, r3) = read_int16 r2;
            (h, r4) = read_int16 r3;
            (d1, r5) = read_bytes 8 r4;
            (ffw, r6) = read_int16 r5;
            (ffh, r7) = read_int16 r6;
            (fx, r8) = read_int16 r7;
            (fy, r9) = read_int16 r8;
            (d2, r10) = read_bytes 5 r9;
            (rot, r11) = read_int8 r10;
            (d3, r12) = read_bytes 10 r11;
            (af, r13) = read_int8 r12;
            (d4, r14) = read_bytes 15 r13;
            (mi, r15) = read_int16 r14;
            (mf, r16) = read_int16 r15;
            (rec, r17) = read_int8 r16
        in Some \<lparr>lvr_LVWidth = lvw, lvr_LVHeight = lvh, lvr_Width = w, lvr_Height = h,
                 lvr_Dummy1 = d1, lvr_FocusFrameWidth = ffw, lvr_FocusFrameHeight = ffh,
                 lvr_FocusX = fx, lvr_FocusY = fy, lvr_Dummy2 = d2, lvr_Rotation = rot,
                 lvr_Dummy3 = d3, lvr_AutoFocus = af, lvr_Dummy4 = d4,
                 lvr_MovieTimeRemainInt = mi, lvr_MovieTimeRemainFrac = mf,
                 lvr_Recording = rec\<rparr>)"

text \<open>The two chains of comparisons on \<^verbatim>\<open>lvr.Rotation\<close> and \<^verbatim>\<open>lvr.AutoFocus\<close> (lines 835 to
  849).\<close>

definition rotation_of :: "8 word \<Rightarrow> Rotation" where
  "rotation_of r =
     (if r = 1 then RotationMinus90 else if r = 2 then Rotation90
      else if r = 3 then Rotation180 else Rotation0)"

definition af_of :: "8 word \<Rightarrow> AF" where
  "af_of a = (if a = 1 then AFFail else if a = 2 then AFSuccess else AFNotActive)"

definition getLiveViewImgInner :: "env \<Rightarrow> LVServer \<Rightarrow> (string + LiveView) outcome" where
  "getLiveViewImgInner E s0 =
     (let hs = HeaderSize (model s0) in
      and_then (invoke (RunTransaction OC_NIKON_GetLiveViewImg []) s0) (\<lambda>rep s.
        case rep_err rep of
          Some e \<Rightarrow>
            if e = RCError RC_NIKON_NotLiveView
            then Returned (Inl ''failed to obtain an image: live view is not activated'') s
            else Returned (Inl (''failed to obtain an image: '' @ Error_of E e)) s
        | None \<Rightarrow>
            if int (length (rep_data rep)) \<le> hs
            then Returned (Inl ''failed to obtain an image: the data has insufficient length'') s
            else
              let raw = rep_data rep in
              case go_slice raw 8 hs of
                None \<Rightarrow> Panicked slice_bounds_out_of_range s
              | Some hdr \<Rightarrow>
                  (case binary_Read hdr of
                     None \<Rightarrow> Returned (Inl ''failed to decode header'') s
                   | Some lvr \<Rightarrow>
                       Returned (Inr \<lparr>LVWidth = lvr_LVWidth lvr, LVHeight = lvr_LVHeight lvr,
                                      Width = lvr_Width lvr, Height = lvr_Height lvr,
                                      FocusFrameWidth = lvr_FocusFrameWidth lvr,
                                      FocusFrameHeight = lvr_FocusFrameHeight lvr,
                                      FocusX = lvr_FocusX lvr, FocusY = lvr_FocusY lvr,
                                      Rotation = rotation_of (lvr_Rotation lvr),
                                      AutoFocus = af_of (lvr_AutoFocus lvr),
                                      Recording = (lvr_Recording lvr = 1),
                                      JPEG = drop (nat hs) raw\<rparr>) s)))"

subsection \<open>The device gateway: thread-safe wrappers\<close>

text \<open>Each wrapper takes \<^verbatim>\<open>mtpLock\<close> for its whole body (see the lock sequences below)
  and answers without the device when \<open>dummy\<close> is set. A Go \<^verbatim>\<open>error\<close> made by
  \<^verbatim>\<open>fmt.Errorf\<close> is its message; \<open>None\<close> is \<^verbatim>\<open>nil\<close>.\<close>

definition endLiveView :: "env \<Rightarrow> LVServer \<Rightarrow> string option outcome" where
  "endLiveView E s0 =
     (if dummy s0 then Returned None s0
      else and_then (invoke (RunTransactionWithNoParams OC_NIKON_EndLiveView) s0) (\<lambda>rep s.
        case rep_err rep of
          Some e \<Rightarrow> Returned (Some (''failed to end live view: '' @ Error_of E e)) s
        | None \<Rightarrow> Returned None s))"

text \<open>\<^verbatim>\<open>getLiveViewStatusInner\<close> returns \<^verbatim>\<open>(error, bool)\<close>.\<close>

definition getLiveViewStatusInner :: "LVServer \<Rightarrow> (go_error option \<times> bool) outcome" where
  "getLiveViewStatusInner s0 =
     and_then (invoke (GetDevicePropValue DPC_NIKON_LiveViewStatus) s0) (\<lambda>rep s.
       let err = rep_err rep in
       if err \<noteq> None \<and> err \<noteq> Some io_EOF then Returned (err, False) s
       else Returned (None, err = Some io_EOF) s)"

text \<open>\<^verbatim>\<open>getLiveViewStatus\<close> returns \<^verbatim>\<open>(bool, error)\<close>.\<close>

definition getLiveViewStatus :: "env \<Rightarrow> LVServer \<Rightarrow> (bool \<times> string option) outcome" where
  "getLiveViewStatus E s0 =
     (if dummy s0 then Returned (True, None) s0
      else and_then (getLiveViewStatusInner s0) (\<lambda>(err, status) s.
        case err of
          Some e \<Rightarrow> Returned (False, Some (''failed to get live view status: '' @ Error_of E e)) s
        | None \<Rightarrow> Returned (status, None) s))"

definition autoFocus :: "env \<Rightarrow> LVServer \<Rightarrow> string option outcome" where
  "autoFocus E s0 =
     (if dummy s0 then Returned None s0
      else and_then (invoke (RunTransactionWithNoParams OC_NIKON_AfDrive) s0) (\<lambda>rep s.
        case rep_err rep of
          Some e \<Rightarrow> Returned (Some (''failed to do auto focus: '' @ Error_of E e)) s
        | None \<Rightarrow> Returned None s))"

definition LiveView_zero :: "env \<Rightarrow> LiveView" where
  "LiveView_zero E =
     \<lparr>LVWidth = 0, LVHeight = 0, Width = 0, Height = 0, FocusFrameWidth = 0,
      FocusFrameHeight = 0, FocusX = 0, FocusY = 0, Rotation = Rotation_zero E,
      AutoFocus = AF_zero E, Recording = False, JPEG = []\<rparr>"

definition getLiveViewImg :: "env \<Rightarrow> LVServer \<Rightarrow> (string + LiveView) outcome" where
  "getLiveViewImg E s0 =
     (if dummy s0 then Returned (Inr (LiveView_zero E)) s0
      else getLiveViewImgInner E s0)"

text \<open>The loops over \<^verbatim>\<open>Values\<close>: every element must assert as uint64; the first that does
  not ends the loop (\<open>False\<close>), with what was appended so far.\<close>

fun assert_uint64s :: "(64 word \<Rightarrow> 'a) \<Rightarrow> go_value list \<Rightarrow> 'a list \<Rightarrow> 'a list \<times> bool" where
  "assert_uint64s f [] acc = (acc, True)"
| "assert_uint64s f (V_uint64 v # vs) acc = assert_uint64s f vs (acc @ [f v])"
| "assert_uint64s f (_ # vs) acc = (acc, False)"

text \<open>The test \<^verbatim>\<open>err != nil && err != io.EOF\<close>: the error that passes it, if any.\<close>

definition not_nil_nor_EOF :: "go_error option \<Rightarrow> go_error option" where
  "not_nil_nor_EOF err =
     (case err of None \<Rightarrow> None | Some e \<Rightarrow> if e = io_EOF then None else Some e)"

text \<open>\<^verbatim>\<open>getISOs\<close> returns \<^verbatim>\<open>([]int, int, error)\<close>. \<^verbatim>\<open>int\<close> is 64 bits wide, so \<^verbatim>\<open>int(iso)\<close> of a
  uint64 is its two's complement reading.\<close>

definition getISOs :: "env \<Rightarrow> LVServer \<Rightarrow> (int list \<times> int \<times> string option) outcome" where
  "getISOs E s0 =
     (if dummy s0 then Returned ([100, 1000, 10000], 100, None) s0
      else and_then (invoke (GetDevicePropDesc DPC_ExposureIndex) s0) (\<lambda>rep s.
        let val = rep_desc rep in
        case not_nil_nor_EOF (rep_err rep) of
          Some e \<Rightarrow> Returned ([], 0, Some (Error_of E e)) s
        | None \<Rightarrow>
          case Form val of
            other_form \<Rightarrow>
              Returned ([], 0,
                Some ''unexpedted type: could not assert that returned prop is enum form'') s
          | PropDescEnumForm vs \<Rightarrow>
              (case assert_uint64s sint vs [] of
                 (isoi, False) \<Rightarrow>
                   Returned (isoi, 0,
                     Some ''unexpedted type: could not assert that form value is uint64'') s
               | (isoi, True) \<Rightarrow>
                   (case CurrentValue val of
                      V_uint16 currentISO \<Rightarrow> Returned (isoi, uint currentISO, None) s
                    | _ \<Rightarrow>
                        Returned (isoi, 0,
                          Some ''unexpedted type: could not assert that current value is uint16'') s))))"

definition setISO :: "env \<Rightarrow> int \<Rightarrow> LVServer \<Rightarrow> string option outcome" where
  "setISO E isov s0 =
     (if dummy s0 then Returned None s0
      else and_then (invoke (SetDevicePropValue DPC_ExposureIndex (ISO (word_of_int isov))) s0)
        (\<lambda>rep s.
          case rep_err rep of
            Some e \<Rightarrow> Returned (Some (''failed to set ISO: '' @ Error_of E e)) s
          | None \<Rightarrow> Returned None s))"

subsection \<open>float64 arithmetic used for the f-number\<close>

text \<open>Finite float64 values are the rationals they denote (the sign of zero is not kept:
  nothing here depends on it). \<open>round_float64\<close> is IEEE 754 round-to-nearest-even into
  binary64: 53 significant bits, least exponent \<open>-1074\<close>, overflow to infinity from
  \<open>2 ^ 1024\<close>.\<close>

definition floor_log2 :: "rat \<Rightarrow> int" where
  "floor_log2 q =
     (let (n, d) = quotient_of q; k = bitlen n - bitlen d
      in if 2 powi k \<le> q then k else k - 1)"

definition round_half_even :: "rat \<Rightarrow> int" where
  "round_half_even x =
     (let f = \<lfloor>x\<rfloor>; r = x - of_int f
      in if r < 1 / 2 then f else if 1 / 2 < r then f + 1 else if even f then f else f + 1)"

definition round_float64 :: "rat \<Rightarrow> float64" where
  "round_float64 q =
     (if q = 0 then Finite 0
      else
        let a = \<bar>q\<bar>;
            e = max (floor_log2 a - 52) (- 1074);
            m = round_half_even (a / 2 powi e);
            v = of_int m * 2 powi e
        in if 2 ^ 1024 \<le> v then (if 0 < q then PosInf else NegInf)
           else Finite (if 0 < q then v else - v))"

text \<open>Multiplication and division by a nonzero finite constant (\<^verbatim>\<open>fnf * 100\<close>,
  \<^verbatim>\<open>float64(fn) / 100\<close>).\<close>

fun f64_mul_const :: "float64 \<Rightarrow> rat \<Rightarrow> float64" where
  "f64_mul_const (Finite a) c = round_float64 (a * c)"
| "f64_mul_const PosInf c = (if 0 < c then PosInf else NegInf)"
| "f64_mul_const NegInf c = (if 0 < c then NegInf else PosInf)"
| "f64_mul_const NaN c = NaN"

fun f64_div_const :: "float64 \<Rightarrow> rat \<Rightarrow> float64" where
  "f64_div_const (Finite a) c = round_float64 (a / c)"
| "f64_div_const PosInf c = (if 0 < c then PosInf else NegInf)"
| "f64_div_const NegInf c = (if 0 < c then NegInf else PosInf)"
| "f64_div_const NaN c = NaN"

text \<open>\<^verbatim>\<open>uint16(x)\<close> of a float64: the fraction is discarded; a value uint16 cannot represent
  converts to an implementation-dependent result.\<close>

definition uint16_of_float64 :: "env \<Rightarrow> float64 \<Rightarrow> 16 word" where
  "uint16_of_float64 E x =
     (case x of
        Finite q \<Rightarrow>
          (let t = (if 0 \<le> q then \<lfloor>q\<rfloor> else \<lceil>q\<rceil>)
           in if 0 \<le> t \<and> t < 65536 then word_of_int t else uint16_unrepresentable E x)
      | _ \<Rightarrow> uint16_unrepresentable E x)"

text \<open>\<^verbatim>\<open>float64(fn)\<close> of a uint64.\<close>

definition float64_of_uint64 :: "64 word \<Rightarrow> float64" where
  "float64_of_uint64 w = round_float64 (of_int (uint w))"

text \<open>Plain decimal literals: an optional sign, digits with at most one point, at least
  one digit. Their value is exact.\<close>

definition is_digit :: "char \<Rightarrow> bool" where
  "is_digit c = (c \<in> set ''0123456789'')"

definition digit_val :: "char \<Rightarrow> nat" where
  "digit_val c = of_char c - 48"

definition digits_val :: "string \<Rightarrow> nat" where
  "digits_val ds = foldl (\<lambda>a c. 10 * a + digit_val c) 0 ds"

definition decimal_literal :: "string \<Rightarrow> rat option" where
  "decimal_literal str =
     (let (neg, body) =
            (case str of
               [] \<Rightarrow> (False, [])
             | c # r \<Rightarrow> if c = CHR ''+'' then (False, r)
                        else if c = CHR ''-'' then (True, r) else (False, str));
          ip = takeWhile is_digit body;
          rest = dropWhile is_digit body;
          (fp, ok) =
            (case rest of
               [] \<Rightarrow> ([], True)
             | c # r \<Rightarrow> if c = CHR ''.'' \<and> list_all is_digit r then (r, True) else ([], False))
      in if ok \<and> (ip \<noteq> [] \<or> fp \<noteq> [])
         then Some ((if neg then - 1 else 1) * of_nat (digits_val (ip @ fp)) / 10 ^ length fp)
         else None)"

text \<open>\<^verbatim>\<open>strconv.ParseFloat(str, 64)\<close>: the nearest float64; a value that rounds to infinity
  is a range error.\<close>

definition ParseFloat :: "env \<Rightarrow> string \<Rightarrow> string + float64" where
  "ParseFloat E str =
     (case decimal_literal str of
        None \<Rightarrow> ParseFloat_nondecimal E str
      | Some q \<Rightarrow>
          (case round_float64 q of
             Finite v \<Rightarrow> Inr (Finite v)
           | _ \<Rightarrow>
               Inl (''strconv.ParseFloat: parsing '' @ [CHR 0x22] @ str @ [CHR 0x22]
                    @ '': value out of range'')))"

definition getFNs :: "env \<Rightarrow> LVServer \<Rightarrow> (string list \<times> string \<times> string option) outcome" where
  "getFNs E s0 =
     (if dummy s0 then Returned ([''3.5'', ''10'', ''22''], ''3.5'', None) s0
      else and_then (invoke (GetDevicePropDesc DPC_FNumber) s0) (\<lambda>rep s.
        let val = rep_desc rep in
        case not_nil_nor_EOF (rep_err rep) of
          Some e \<Rightarrow> Returned ([], [], Some (Error_of E e)) s
        | None \<Rightarrow>
          case Form val of
            other_form \<Rightarrow>
              Returned ([], [],
                Some ''unexpedted type: could not assert that returned prop is enum form'') s
          | PropDescEnumForm vs \<Rightarrow>
              (case assert_uint64s
                      (\<lambda>fn. FormatFloat E (f64_div_const (float64_of_uint64 fn) 100)) vs [] of
                 (fns, False) \<Rightarrow>
                   Returned (fns, [],
                     Some ''unexpedted type: could not assert that form value is uint64'') s
               | (fns, True) \<Rightarrow>
                   (case CurrentValue val of
                      V_uint16 current \<Rightarrow>
                        Returned (fns,
                          FormatFloat E (f64_div_const (round_float64 (of_int (uint current))) 100),
                          None) s
                    | _ \<Rightarrow>
                        Returned (fns, [],
                          Some ''unexpedted type: could not assert that current value is uint16'') s))))"

definition setFN :: "env \<Rightarrow> string \<Rightarrow> LVServer \<Rightarrow> string option outcome" where
  "setFN E fn s0 =
     (if dummy s0 then Returned None s0
      else
        case ParseFloat E fn of
          Inl err \<Rightarrow> Returned (Some (''failed to parse f-number: '' @ err)) s0
        | Inr fnf \<Rightarrow>
            and_then (invoke (RunTransactionWithNoParams OC_NIKON_EndLiveView) s0) (\<lambda>rep1 s1.
              case rep_err rep1 of
                Some e \<Rightarrow>
                  Returned (Some (''failed to set f-number: failed to stop live view: ''
                                  @ Error_of E e)) s1
              | None \<Rightarrow>
                  and_then (invoke (SetDevicePropValue DPC_FNumber
                              (FN (uint16_of_float64 E (f64_mul_const fnf 100)))) s1) (\<lambda>rep2 s2.
                    case rep_err rep2 of
                      Some e \<Rightarrow> Returned (Some (''failed to set f-number: '' @ Error_of E e)) s2
                    | None \<Rightarrow>
                        and_then (invoke (RunTransactionWithNoParams OC_NIKON_StartLiveView) s2)
                          (\<lambda>rep3 s3.
                            case rep_err rep3 of
                              Some e \<Rightarrow>
                                if e = RCError RC_NIKON_InvalidStatus
                                then Returned (Some ''failed to set f-number: failed to start live view: InvalidStatus (battery level is low?)'') s3
                                else Returned (Some (''failed to set f-number: start live view: ''
                                                     @ Error_of E e)) s3
                            | None \<Rightarrow> Returned None s3))))"

subsection \<open>Entering live view\<close>

definition logf :: "log_level \<Rightarrow> string \<Rightarrow> log_arg list \<Rightarrow> LVServer \<Rightarrow> LVServer" where
  "logf lvl fmt args s = emit (Log lvl fmt args) s"

definition switchRecordMedia :: "env \<Rightarrow> LVServer \<Rightarrow> string option outcome" where
  "switchRecordMedia E s0 =
     and_then (invoke (GetDevicePropDesc DPC_NIKON_RecordingMedia) s0) (\<lambda>rep s.
       case rep_err rep of
         Some e \<Rightarrow> Returned (Some (''failed to get recording media: '' @ Error_of E e)) s
       | None \<Rightarrow>
           (case CurrentValue (rep_desc rep) of
              V_int8 currentMedia \<Rightarrow>
                if currentMedia = int8_of_RecordingMedia E RecordingMediaCard
                then
                  and_then
                    (invoke (SetDevicePropValue DPC_NIKON_RecordingMedia (Media RecordingMediaSDRAM))
                       (logf Debug ''the recording media is the card. Switching it to the SDRAM.'' []
                         (logf Debug ''current recording media: card'' [] s)))
                    (\<lambda>rep2 s2.
                       case rep_err rep2 of
                         Some e \<Rightarrow>
                           Returned (Some (''failed to SetDevicePropValue: '' @ Error_of E e)) s2
                       | None \<Rightarrow> Returned None s2)
                else Returned None (logf Debug ''current recording media: SDRAM'' [] s)
            | _ \<Rightarrow>
                Returned None
                  (logf Warning ''unexpected format of the RecordingMedia property'' [] s)))"

text \<open>\<^verbatim>\<open>changeResolution\<close>. The second \<^verbatim>\<open>Infof\<close> evaluates \<^verbatim>\<open>choices[len(choices)-1]\<close>: an index
  of \<open>-1\<close> when \<open>choices\<close> is empty, which panics.\<close>

definition changeResolution :: "env \<Rightarrow> LVServer \<Rightarrow> string option outcome" where
  "changeResolution E s0 =
     and_then (invoke (GetDevicePropDesc DPC_NIKON_Resolution)
                 (logf Info ''getting available resolutions'' [] s0)) (\<lambda>rep s.
       case rep_err rep of
         Some e \<Rightarrow> Returned (Some (''failed to get recording media: '' @ Error_of E e)) s
       | None \<Rightarrow>
           (case Form (rep_desc rep) of
              other_form \<Rightarrow>
                Returned (Some ''failed to assert returned value (DPC_NIKON_Resolution)'') s
            | PropDescEnumForm vs \<Rightarrow>
                (case assert_uint64s (\<lambda>v. v) vs [] of
                   (_, False) \<Rightarrow>
                     Returned (Some ''failed to assert a value in the array as uint64'') s
                 | (choices, True) \<Rightarrow>
                     let s1 = logf Info ''available resolutions (higher is larger): %v''
                                [A_uint64s choices] s
                     in
                       if choices = [] then Panicked index_out_of_range s1
                       else
                         let chosen = choices ! (length choices - 1);
                             s2 = logf Info ''automatically use the largest choice: %d''
                                    [A_int (uint chosen)] s1
                         in
                           case ResolutionType (model s2) of
                             ResolutionType64 \<Rightarrow>
                               and_then
                                 (invoke (SetDevicePropValue DPC_NIKON_Resolution
                                            (Resolution64 chosen)) s2)
                                 (\<lambda>rep2 s3.
                                    case rep_err rep2 of
                                      Some e \<Rightarrow>
                                        Returned (Some (''failed to SetDevicePropValue: ''
                                                        @ Error_of E e)) s3
                                    | None \<Rightarrow> Returned None s3)
                           | ResolutionType8 \<Rightarrow>
                               and_then
                                 (invoke (SetDevicePropValue DPC_NIKON_Resolution
                                            (Resolution8 (ucast chosen))) s2)
                                 (\<lambda>rep2 s3.
                                    case rep_err rep2 of
                                      Some e \<Rightarrow>
                                        Returned (Some (''failed to SetDevicePropValue: ''
                                                        @ Error_of E e)) s3
                                    | None \<Rightarrow> Returned None s3)
                           | ResolutionType_other \<Rightarrow> Returned None s2)))"

text \<open>\<^verbatim>\<open>bitScan\<close>: the loop \<^verbatim>\<open>for i := 0; i < 64; i++\<close>. In \<^verbatim>\<open>val & (1 << i)\<close> the constant 1
  has the type of \<open>val\<close> (uint32), so the shift yields 0 from \<open>i = 32\<close> on.\<close>

function bitScan_from :: "32 word \<Rightarrow> nat \<Rightarrow> int" where
  "bitScan_from val i =
     (if i < 64
      then (if val AND push_bit i 1 > 0 then int i else bitScan_from val (i + 1))
      else - 1)"
  by pat_completeness auto
termination
  by (relation "measure (\<lambda>(val, i). 64 - i)") auto

declare bitScan_from.simps [simp del]

definition bitScan :: "32 word \<Rightarrow> int" where
  "bitScan val = bitScan_from val 0"

text \<open>Bit \<open>k\<close> is the lowest set bit of \<open>val\<close>: it is set and the bits below it are clear.\<close>

definition lowest_set_bit :: "32 word \<Rightarrow> nat \<Rightarrow> bool" where
  "lowest_set_bit val k = (bit val k \<and> take_bit k val = 0)"

definition prohibit_reason :: "int \<Rightarrow> string" where
  "prohibit_reason b =
     (if b = - 1 then ''(empty)''
      else if b = 0 then ''recording destination is the card''
      else if b = 2 then ''sequence error''
      else if b = 4 then ''button is fully pressed''
      else if b = 5 then ''aperture value is set by the lens''
      else if b = 6 then ''bulb error''
      else if b = 7 then ''during cleaning''
      else if b = 8 then ''insufficient battery''
      else if b = 9 then ''TTL error''
      else if b = 11 then ''non-CPU lens is mounted and the mode is not M''
      else if b = 12 then ''there are images which are recorded in SDRAM''
      else if b = 13 then ''the release mode is mirror-up''
      else if b = 14 then ''no card inserted''
      else if b = 15 then ''shot command is being processed''
      else if b = 16 then ''shooting in progress''
      else if b = 17 then ''overheated''
      else if b = 18 then ''card is protected''
      else if b = 19 then ''card error''
      else if b = 20 then ''card is not formatted''
      else if b = 21 then ''bulb error''
      else if b = 22 then ''the release mode is mirror-up and it is being processed''
      else if b = 24 then ''the lens is not extended''
      else ''unknown reason'')"

text \<open>\<^verbatim>\<open>readLiveViewProhibitCondition\<close> returns \<^verbatim>\<open>(string, error)\<close>; the \<^verbatim>\<open>switch\<close> on the
  result of \<^verbatim>\<open>bitScan\<close> is \<open>prohibit_reason\<close>.\<close>

definition readLiveViewProhibitCondition :: "env \<Rightarrow> LVServer \<Rightarrow> (string \<times> string option) outcome" where
  "readLiveViewProhibitCondition E s0 =
     and_then (invoke (GetDevicePropValue DPC_NIKON_LiveViewProhibitCondition) s0) (\<lambda>rep s.
       case rep_err rep of
         Some e \<Rightarrow>
           Returned ([], Some (''failed to read LiveViewProhibitCondition: '' @ Error_of E e)) s
       | None \<Rightarrow> Returned (prohibit_reason (bitScan (rep_uint32 rep)), None) s)"

text \<open>\<^verbatim>\<open>startLiveView\<close>, in two parts: the preparation (lines 518 to 535: \<^verbatim>\<open>DeviceReady\<close>,
  the recording media, the resolution), which returns the error that ends the function
  early, and the start itself (lines 537 to 549).\<close>

definition startLiveView_prepare :: "env \<Rightarrow> LVServer \<Rightarrow> string option outcome" where
  "startLiveView_prepare E s0 =
     and_then (invoke (RunTransactionWithNoParams OC_NIKON_DeviceReady) s0) (\<lambda>rep s1.
       case rep_err rep of
         Some e \<Rightarrow> Returned (Some ''failed to start live view: the camera is not ready'') s1
       | None \<Rightarrow>
           and_then
             (if QuirkSwitchMedia (model s1) then switchRecordMedia E s1 else Returned None s1)
             (\<lambda>err s2.
                case err of
                  Some msg \<Rightarrow> Returned (Some (''failed to switch recording media: '' @ msg)) s2
                | None \<Rightarrow>
                    if maxResolution s2
                    then
                      and_then (changeResolution E s2) (\<lambda>err s3.
                        case err of
                          Some msg \<Rightarrow>
                            Returned None
                              (logf Warning ''failed to change the image resolution (%s); if it affects capturing frames, consider disabling `-max-resolution`''
                                 [A_str msg] s3)
                        | None \<Rightarrow> Returned None s3)
                    else Returned None s2))"

definition startLiveView_start :: "env \<Rightarrow> LVServer \<Rightarrow> string option outcome" where
  "startLiveView_start E s0 =
     and_then (invoke (RunTransactionWithNoParams OC_NIKON_StartLiveView) s0) (\<lambda>rep s1.
       case rep_err rep of
         Some e \<Rightarrow>
           if e = RCError RC_NIKON_InvalidStatus
           then
             and_then
               (readLiveViewProhibitCondition E
                  (logf Error ''failed to start live view (InvalidStatus). Investigating the reason...''
                     [] s1))
               (\<lambda>(reason, err) s2.
                  case err of
                    Some msg \<Rightarrow>
                      Returned (Some (''failed to start live view and failed to investigate the reason: ''
                                      @ msg)) s2
                  | None \<Rightarrow> Returned (Some (''failed to start live view, reason: '' @ reason)) s2)
           else Returned (Some (''failed to start live view: '' @ Error_of E e)) s1
       | None \<Rightarrow> Returned None s1)"

definition startLiveView :: "env \<Rightarrow> LVServer \<Rightarrow> string option outcome" where
  "startLiveView E s0 =
     and_then (startLiveView_prepare E s0) (\<lambda>err s1.
       case err of
         Some msg \<Rightarrow> Returned (Some msg) s1
       | None \<Rightarrow> startLiveView_start E s1)"

subsection \<open>Workers: one iteration of each loop\<close>

definition Second :: int where
  "Second = 1000000000"

definition Millisecond :: int where
  "Millisecond = 1000000"

text \<open>\<^verbatim>\<open>time.Duration\<close> is an int64: multiplication wraps around.\<close>

definition Duration_mul :: "int \<Rightarrow> int \<Rightarrow> int" where
  "Duration_mul a b = signed_take_bit 63 (a * b)"

text \<open>The body of the loop of \<^verbatim>\<open>workerLV\<close>, after a tick (lines 330 to 341).\<close>

definition workerLV_iteration :: "env \<Rightarrow> LVServer \<Rightarrow> unit outcome" where
  "workerLV_iteration E s0 =
     and_then (getLiveViewStatus E s0) (\<lambda>(status, err) s1.
       case err of
         Some msg \<Rightarrow> Returned () (logf Warning ''workerLV: %s'' [A_str msg] s1)
       | None \<Rightarrow>
           if status then Returned () s1
           else
             and_then (startLiveView E s1) (\<lambda>err s2.
               case err of
                 Some msg \<Rightarrow> Returned () (logf Warning ''workerLV: %s'' [A_str msg] s2)
               | None \<Rightarrow> Returned () s2))"

text \<open>The closure \<^verbatim>\<open>set\<close> of \<^verbatim>\<open>frameCaptorSakura\<close>: the frame, its sidecar and the
  non-blocking send on the capacity-1 channel (a pending notification stays pending).\<close>

definition frameCaptorSakura_set :: "LiveView \<Rightarrow> int \<Rightarrow> string \<Rightarrow> LVServer \<Rightarrow> LVServer" where
  "frameCaptorSakura_set lv isov fn s =
     s\<lparr>Frame := JPEG lv,
       info := (info s)\<lparr>info_Width := sint (LVWidth lv), info_Height := sint (LVHeight lv),
                        info_ISO := isov, info_FN := fn\<rparr>,
       newFrameChan := True\<rparr>"

text \<open>The body of the loop of \<^verbatim>\<open>frameCaptorSakura\<close>, when the context is not done (lines
  390 to 424). Every path ends the iteration; the loop then continues.\<close>

definition frameCaptorSakura_iteration :: "env \<Rightarrow> LVServer \<Rightarrow> unit outcome" where
  "frameCaptorSakura_iteration E s0 =
     (if dummy s0 then Returned () (emit (Sleep Second) s0)
      else
        let s1 = (if lrFPS s0 > 0
                  then emit (Sleep_until_last_plus (Second div lrFPS s0)) s0 else s0)
        in
          and_then (getLiveViewImg E s1) (\<lambda>r s2.
            case r of
              Inl msg \<Rightarrow>
                if msg = ''failed to obtain an image: live view is not activated''
                then Returned () (emit (Sleep Second) s2)
                else Returned ()
                       (emit (Sleep Second) (logf Warning ''frameCaptor: %s'' [A_str msg] s2))
            | Inr lv \<Rightarrow>
                and_then (getISOs E s2) (\<lambda>(isos, currentISO, err) s3.
                  let (isov, s4) =
                        (case err of
                           Some msg \<Rightarrow>
                             (0, logf Warning ''frameCaptor: failed to get current ISO: %s''
                                   [A_str msg] s3)
                         | None \<Rightarrow> (currentISO, s3))
                  in
                    and_then (getFNs E s4) (\<lambda>(fns, currentFN, err) s5.
                      let (fn, s6) =
                            (case err of
                               Some msg \<Rightarrow>
                                 (''0'',
                                  logf Warning ''frameCaptor: failed to get current f-number: %s''
                                    [A_str msg] s5)
                             | None \<Rightarrow> (currentFN, s5));
                          s7 = frameCaptorSakura_set lv isov fn s6
                      in Returned () (s7\<lparr>fpsRate := fpsRate s7 + 1\<rparr>)))))"

subsection \<open>The control endpoint: one received message\<close>

definition setInfo :: "int option \<Rightarrow> int option \<Rightarrow> LVServer \<Rightarrow> LVServer" where
  "setInfo af lr s =
     (let s1 = (case af of Some v \<Rightarrow> s\<lparr>info := (info s)\<lparr>info_AF := v\<rparr>\<rparr> | None \<Rightarrow> s)
      in case lr of Some v \<Rightarrow> s1\<lparr>info := (info s1)\<lparr>info_LR := v\<rparr>\<rparr> | None \<Rightarrow> s1)"

text \<open>Lines 189 to 221: the fields after the AF interval.\<close>

definition HandleControl_rest :: "env \<Rightarrow> ControlPayload \<Rightarrow> LVServer \<Rightarrow> unit outcome" where
  "HandleControl_rest E p s0 =
     (let s1 = (if AFFocusNow p = Some True
                then emit afNowChan_send (logf Debug ''HandleControl: focus now'' [] s0)
                else s0);
          s2 = (case LRFPS p of
                  None \<Rightarrow> s1
                | Some v \<Rightarrow>
                    let sa = setInfo None (Some v) s1;
                        sb = (if v > 0
                              then logf Debug ''HandleControl: set rate limit: %d'' [A_int v] sa
                              else logf Debug ''HandleControl: disable rate limit'' [] sa)
                    in sb\<lparr>lrFPS := v\<rparr>)
      in
        and_then
          (case cp_ISO p of
             None \<Rightarrow> Returned () s2
           | Some isov \<Rightarrow>
               and_then
                 (setISO E isov (logf Debug ''HandleControl: set ISO: %d'' [A_int isov] s2))
                 (\<lambda>err s.
                    case err of
                      Some msg \<Rightarrow>
                        Returned ()
                          (logf Error ''HandleControl: failed to set ISO: %s'' [A_str msg] s)
                    | None \<Rightarrow> Returned () s))
          (\<lambda>u s3.
             case cp_FN p of
               None \<Rightarrow> Returned () s3
             | Some fn \<Rightarrow>
                 and_then
                   (setFN E fn (logf Debug ''HandleControl: set f-number: %s'' [A_str fn] s3))
                   (\<lambda>err s.
                      case err of
                        Some msg \<Rightarrow>
                          Returned ()
                            (logf Error ''HandleControl: failed to set f-number: %s''
                               [A_str msg] s)
                      | None \<Rightarrow> Returned () s)))"

text \<open>The body of the loop of \<^verbatim>\<open>HandleControl\<close> for a message that was read (lines 169
  to 221). The \<^verbatim>\<open>continue\<close> of the non-positive AF interval ends the iteration. The
  \<^verbatim>\<open>err\<close> tested after \<^verbatim>\<open>SetInterval\<close> is the nil read error, so that branch never logs.\<close>

definition HandleControl_message :: "env \<Rightarrow> ControlPayload \<Rightarrow> LVServer \<Rightarrow> unit outcome" where
  "HandleControl_message E p s0 =
     (case AFInterval p of
        None \<Rightarrow> HandleControl_rest E p s0
      | Some v \<Rightarrow>
          let s1 = setInfo (Some v) None s0 in
          if v > 0
          then
            let s2 = emit Ticker_Start (logf Debug ''HandleControl: enable AF'' [] s1);
                s3 = s2\<lparr>afInterval := v\<rparr>;
                s4 = emit (Ticker_SetInterval (Duration_mul v Second)) s3;
                s5 = logf Debug ''HandleControl: set AF interval: %d'' [A_int v] s4
            in HandleControl_rest E p s5
          else Returned () (emit Ticker_Stop (logf Debug ''HandleControl: disable AF'' [] s1)))"

text \<open>The message with no field present.\<close>

definition no_fields :: ControlPayload where
  "no_fields = \<lparr>AFInterval = None, AFFocusNow = None, LRFPS = None, cp_ISO = None, cp_FN = None\<rparr>"

subsection \<open>Construction and the supervisor\<close>

definition InfoPayload_zero :: InfoPayload where
  "InfoPayload_zero =
     \<lparr>info_ISO = 0, info_ISOs = [], info_FN = [], info_FNs = [], info_AF = 0, info_LR = 0,
      info_Width = 0, info_Height = 0, info_FPS = 0, info_Frame = []\<rparr>"

definition NewLVServer :: "env \<Rightarrow> Device option \<Rightarrow> bool \<Rightarrow> LVServer" where
  "NewLVServer E d mr =
     \<lparr>Frame = [], newFrameChan = False, fpsRate = 0, info = InfoPayload_zero,
      model = Model_zero E, dev = d, dummy = (d = None), maxResolution = mr,
      afInterval = 5, lrFPS = 0, trace = []\<rparr>"

text \<open>A deferred call runs when the function returns and when it panics (the panic then
  goes on); \<^verbatim>\<open>log.Fatalf\<close> exits the process, and no deferred call runs.\<close>

definition with_deferred :: "(LVServer \<Rightarrow> 'b outcome) \<Rightarrow> 'a outcome \<Rightarrow> 'a outcome" where
  "with_deferred f m =
     (case m of
        Returned a s \<Rightarrow>
          (case f s of Returned b s' \<Rightarrow> Returned a s' | Panicked q s' \<Rightarrow> Panicked q s')
      | Panicked p s \<Rightarrow>
          if p = fatal_exit then Panicked p s
          else (case f s of Returned b s' \<Rightarrow> Panicked p s' | Panicked q s' \<Rightarrow> Panicked q s'))"

text \<open>\<^verbatim>\<open>Run\<close>. The workers are started, not run: \<^verbatim>\<open>eg.Go\<close> and \<^verbatim>\<open>eg.Wait\<close> are recorded as
  effects, and the result of \<^verbatim>\<open>Wait\<close> is the nil every worker returns.\<close>

definition Run :: "env \<Rightarrow> LVServer \<Rightarrow> string option outcome" where
  "Run E s0 =
     with_deferred (endLiveView E)
       (and_then (invoke ID s0) (\<lambda>rep s1.
          case rep_err rep of
            Some e \<Rightarrow>
              Panicked fatal_exit
                (logf Fatal ''failed to get device identity: %s'' [A_str (Error_of E e)] s1)
          | None \<Rightarrow>
              let ident = rep_id rep;
                  s2 = logf Debug ''manufacturer = %s, product = %s, serialnumber = %s''
                         [A_str (Manufacturer ident), A_str (Product ident),
                          A_str (SerialNumber ident)] s1;
                  (m, ok) = Match E (Product ident);
                  s3 = (if ok
                        then (logf Debug ''model matched: %s'' [A_str (Name m)] s2)\<lparr>model := m\<rparr>
                        else (logf Debug ''model didn't match, falling back to the generic model %s''
                                [A_str (Name m)] s2)\<lparr>model := Generic E\<rparr>)
              in
                and_then (getISOs E s3) (\<lambda>(isos, cur, err) s4.
                  let s5 = (case err of
                              Some msg \<Rightarrow>
                                (logf Warning ''failed to obtain ISO list: %s'' [A_str msg] s4)
                                  \<lparr>info := (info s4)\<lparr>info_ISOs := [0]\<rparr>\<rparr>
                            | None \<Rightarrow> s4\<lparr>info := (info s4)\<lparr>info_ISOs := isos\<rparr>\<rparr>)
                  in
                    and_then (getFNs E s5) (\<lambda>(fns, cur, err) s6.
                      let s7 = (case err of
                                  Some msg \<Rightarrow>
                                    (logf Warning ''failed to obtain F-values: %s'' [A_str msg] s6)
                                      \<lparr>info := (info s6)\<lparr>info_FNs := [''0'']\<rparr>\<rparr>
                                | None \<Rightarrow> s6\<lparr>info := (info s6)\<lparr>info_FNs := fns\<rparr>\<rparr>)
                      in
                        Returned None
                          (s7\<lparr>trace := trace s7 @
                                [eg_Go workerLV, eg_Go workerAF, Sleep (500 * Millisecond),
                                 eg_Go frameCaptorSakura, eg_Go workerBroadcastFrame,
                                 eg_Go workerBroadcastInfo, eg_Wait]\<rparr>)))))"

subsection \<open>Lock acquisition sequences\<close>

text \<open>For every function of server.go that takes a mutex: the \<^verbatim>\<open>Lock\<close> and \<^verbatim>\<open>Unlock\<close>
  calls of one execution, in order. A deferred \<^verbatim>\<open>Unlock\<close> runs when the function returns,
  the last deferred first; a call to another function contributes that function's
  sequence at the place of the call.\<close>

datatype lock = mtpLock | streamLock | motionLock | controlLock | frameLock | infoLock

datatype lock_op = Lock lock | Unlock lock

definition mtp_wrapper_locks :: "lock_op list" where
  "mtp_wrapper_locks = [Lock mtpLock, Unlock mtpLock]"

definition registerStreamClient_locks :: "lock_op list" where
  "registerStreamClient_locks = [Lock streamLock, Unlock streamLock]"

definition unregisterStreamClient_locks :: "lock_op list" where
  "unregisterStreamClient_locks = [Lock streamLock, Unlock streamLock]"

definition registerControlClient_locks :: "lock_op list" where
  "registerControlClient_locks = [Lock controlLock, Unlock controlLock]"

definition unregisterControlClient_locks :: "lock_op list" where
  "unregisterControlClient_locks = [Lock controlLock, Unlock controlLock]"

definition registerMotionClient_locks :: "lock_op list" where
  "registerMotionClient_locks = [Lock controlLock, Unlock controlLock]"

definition unregisterMotionClient_locks :: "lock_op list" where
  "unregisterMotionClient_locks = [Lock motionLock, Unlock motionLock]"

definition setInfo_locks :: "lock_op list" where
  "setInfo_locks = [Lock infoLock, Unlock infoLock]"

definition copyFrame_locks :: "lock_op list" where
  "copyFrame_locks = [Lock frameLock, Unlock frameLock]"

definition frameCaptorSakura_set_locks :: "lock_op list" where
  "frameCaptorSakura_set_locks =
     [Lock frameLock, Lock infoLock, Unlock infoLock, Unlock frameLock]"

definition workerBroadcastFrame_broadcast_locks :: "lock_op list" where
  "workerBroadcastFrame_broadcast_locks =
     [Lock streamLock, Lock motionLock, Unlock motionLock, Unlock streamLock]"

definition workerBroadcastInfo_broadcast_locks :: "lock_op list" where
  "workerBroadcastInfo_broadcast_locks =
     [Lock controlLock, Lock infoLock] @ copyFrame_locks @ [Unlock infoLock, Unlock controlLock]"

text \<open>The handlers and workers: one pass through each (a loop iteration that takes every
  branch that locks).\<close>

definition HandleStream_locks :: "lock_op list" where
  "HandleStream_locks = registerStreamClient_locks @ unregisterStreamClient_locks"

definition HandleControl_locks :: "lock_op list" where
  "HandleControl_locks =
     registerControlClient_locks @ setInfo_locks @ setInfo_locks @ mtp_wrapper_locks
       @ mtp_wrapper_locks @ unregisterControlClient_locks"

definition HandleMotionJPEG_locks :: "lock_op list" where
  "HandleMotionJPEG_locks = registerMotionClient_locks @ unregisterMotionClient_locks"

definition HandleSnapshot_locks :: "lock_op list" where
  "HandleSnapshot_locks = copyFrame_locks"

definition Run_locks :: "lock_op list" where
  "Run_locks = mtp_wrapper_locks @ mtp_wrapper_locks @ mtp_wrapper_locks"

definition workerLV_locks :: "lock_op list" where
  "workerLV_locks = mtp_wrapper_locks @ mtp_wrapper_locks"

definition workerAF_locks :: "lock_op list" where
  "workerAF_locks = mtp_wrapper_locks"

definition frameCaptorSakura_locks :: "lock_op list" where
  "frameCaptorSakura_locks =
     mtp_wrapper_locks @ mtp_wrapper_locks @ mtp_wrapper_locks @ frameCaptorSakura_set_locks"

definition workerBroadcastFrame_locks :: "lock_op list" where
  "workerBroadcastFrame_locks = copyFrame_locks @ workerBroadcastFrame_broadcast_locks"

definition workerBroadcastInfo_locks :: "lock_op list" where
  "workerBroadcastInfo_locks = workerBroadcastInfo_broadcast_locks"

text \<open>The declared order \<^verbatim>\<open>mtpLock\<close>, then \<^verbatim>\<open>streamLock\<close> / \<^verbatim>\<open>motionLock\<close>, then
  \<^verbatim>\<open>controlLock\<close>, then \<^verbatim>\<open>frameLock\<close>, then \<^verbatim>\<open>infoLock\<close>, as a rank. A sequence inverts the
  order when it acquires a lock while holding one of a higher rank.\<close>

fun lock_rank :: "lock \<Rightarrow> nat" where
  "lock_rank mtpLock = 0"
| "lock_rank streamLock = 1"
| "lock_rank motionLock = 1"
| "lock_rank controlLock = 2"
| "lock_rank frameLock = 3"
| "lock_rank infoLock = 4"

fun inversions :: "lock list \<Rightarrow> lock_op list \<Rightarrow> (lock \<times> lock) list" where
  "inversions held [] = []"
| "inversions held (Lock l # ops) =
     map (\<lambda>h. (h, l)) (filter (\<lambda>h. lock_rank l < lock_rank h) held) @ inversions (l # held) ops"
| "inversions held (Unlock l # ops) = inversions (remove1 l held) ops"

subsection \<open>Fixtures: a mock device and a server around it\<close>

definition mock_model :: "int \<Rightarrow> Model" where
  "mock_model hs =
     \<lparr>Name = ''Generic'', HeaderSize = hs, QuirkSwitchMedia = False,
      ResolutionType = ResolutionType64\<rparr>"

definition mock_env :: env where
  "mock_env =
     \<lparr>RCError_Error = (\<lambda>rc. ''RCError''),
      ParseFloat_nondecimal = (\<lambda>str. Inl ''strconv.ParseFloat: invalid syntax''),
      uint16_unrepresentable = (\<lambda>x. 0),
      FormatFloat = (\<lambda>x. ''0''),
      Match = (\<lambda>product. (mock_model 384, False)),
      Generic = mock_model 384,
      int8_of_RecordingMedia = (\<lambda>m. case m of RecordingMediaCard \<Rightarrow> 0 | RecordingMediaSDRAM \<Rightarrow> 1),
      Model_zero = \<lparr>Name = [], HeaderSize = 0, QuirkSwitchMedia = False,
                    ResolutionType = ResolutionType8\<rparr>,
      Rotation_zero = Rotation0,
      AF_zero = AFNotActive\<rparr>"

definition mock_reply :: dev_reply where
  "mock_reply =
     \<lparr>rep_err = None, rep_data = [], rep_uint32 = 0,
      rep_desc = \<lparr>CurrentValue = V_other, Form = other_form\<rparr>,
      rep_id = \<lparr>Manufacturer = ''NIKON'', Product = ''D5300'', SerialNumber = ''1''\<rparr>\<rparr>"

text \<open>A device that answers every call from a table of replies, whatever came before.\<close>

definition mock_device :: "(dev_call \<Rightarrow> dev_reply) \<Rightarrow> Device" where
  "mock_device table = (\<lambda>history c. table c)"

definition mock_server :: "Device \<Rightarrow> int \<Rightarrow> LVServer" where
  "mock_server d hs = (NewLVServer mock_env (Some d) False)\<lparr>model := mock_model hs\<rparr>"

text \<open>A device whose live-view reply is the given buffer.\<close>

definition lv_device :: "byte list \<Rightarrow> Device" where
  "lv_device raw = mock_device (\<lambda>c. mock_reply\<lparr>rep_data := raw\<rparr>)"

text \<open>A device on which every call succeeds, and one that refuses to start live view
  with \<^verbatim>\<open>InvalidStatus\<close>.\<close>

definition ok_device :: Device where
  "ok_device = mock_device (\<lambda>c. mock_reply)"


text \<open>A device whose live view is on (the status read ends with \<^verbatim>\<open>io.EOF\<close>), and one on
  which every call fails with a transport error.\<close>

definition live_view_on_device :: Device where
  "live_view_on_device =
     mock_device (\<lambda>c. if c = GetDevicePropValue DPC_NIKON_LiveViewStatus
                       then mock_reply\<lparr>rep_err := Some io_EOF\<rparr> else mock_reply)"

definition broken_device :: Device where
  "broken_device = mock_device (\<lambda>c. mock_reply\<lparr>rep_err := Some (other_error ''LIBUSB_ERROR_IO'')\<rparr>)"

text \<open>A device that refuses to start live view with \<^verbatim>\<open>InvalidStatus\<close> and reports the
  given prohibit-condition bitmap.\<close>

definition prohibited_device :: "32 word \<Rightarrow> Device" where
  "prohibited_device v =
     mock_device (\<lambda>c. mock_reply
       \<lparr>rep_err := (if c = RunTransactionWithNoParams OC_NIKON_StartLiveView
                    then Some (RCError RC_NIKON_InvalidStatus) else None),
        rep_uint32 := v\<rparr>)"

text \<open>A device whose property descriptors have the enumeration form with the given
  values.\<close>

definition resolution_device :: "go_value list \<Rightarrow> Device" where
  "resolution_device vs =
     mock_device (\<lambda>c. mock_reply\<lparr>rep_desc := \<lparr>CurrentValue = V_other, Form = PropDescEnumForm vs\<rparr>\<rparr>)"

section \<open>Verification\<close>

subsection \<open>Auxiliary facts\<close>

lemma dev_history_append_Dev: "dev_history (es @ [Dev c]) = dev_history es @ [c]"
  by (induction es rule: dev_history.induct) simp_all

text \<open>The value of a big-endian pair of bytes.\<close>

lemma be_int16_value: "uint (be_int16 hi lo) = 256 * uint hi + uint lo"
proof -
  have or_add: "push_bit 8 (ucast hi :: 16 word) OR ucast lo = push_bit 8 (ucast hi) + ucast lo"
    by (rule disjunctive_add [symmetric]) (auto simp: bit_push_bit_iff bit_ucast_iff dest: bit_imp_le_length)
  have bh: "uint hi < 256" using uint_lt2p [of hi] by simp
  have bl: "uint lo < 256" using uint_lt2p [of lo] by simp
  have h0: "0 \<le> uint hi" and l0: "0 \<le> uint lo" by simp_all
  have uh: "uint (ucast hi :: 16 word) = uint hi"
    by (simp add: uint_up_ucast is_up)
  have ul: "uint (ucast lo :: 16 word) = uint lo"
    by (simp add: uint_up_ucast is_up)
  have "uint (push_bit 8 (ucast hi :: 16 word) + ucast lo) = (256 * uint hi + uint lo) mod 65536"
    by (simp add: push_bit_eq_mult uint_word_ariths uh ul mod_simps mult.commute)
  also have "\<dots> = 256 * uint hi + uint lo"
    using bh bl h0 l0 by simp
  finally show ?thesis by (simp add: be_int16_def or_add)
qed

lemma binary_Read_offsets:
  assumes "61 \<le> length r"
  shows "binary_Read r =
    Some \<lparr>lvr_LVWidth = be_int16 (r ! 0) (r ! 1), lvr_LVHeight = be_int16 (r ! 2) (r ! 3),
          lvr_Width = be_int16 (r ! 4) (r ! 5), lvr_Height = be_int16 (r ! 6) (r ! 7),
          lvr_Dummy1 = take 8 (drop 8 r),
          lvr_FocusFrameWidth = be_int16 (r ! 16) (r ! 17),
          lvr_FocusFrameHeight = be_int16 (r ! 18) (r ! 19),
          lvr_FocusX = be_int16 (r ! 20) (r ! 21), lvr_FocusY = be_int16 (r ! 22) (r ! 23),
          lvr_Dummy2 = take 5 (drop 24 r), lvr_Rotation = r ! 29,
          lvr_Dummy3 = take 10 (drop 30 r), lvr_AutoFocus = r ! 40,
          lvr_Dummy4 = take 15 (drop 41 r),
          lvr_MovieTimeRemainInt = be_int16 (r ! 56) (r ! 57),
          lvr_MovieTimeRemainFrac = be_int16 (r ! 58) (r ! 59),
          lvr_Recording = r ! 60\<rparr>"
  using assms
  by (simp add: binary_Read_def liveViewRaw_size_def read_int16_def read_int8_def read_bytes_def)

lemma binary_Read_short: "length r < 61 \<Longrightarrow> binary_Read r = None"
  by (simp add: binary_Read_def liveViewRaw_size_def)

text \<open>A header size that cannot hold the layout: the header fails to decode, and below
  the 8 bytes of the preamble the slice expression panics.\<close>

lemma getLiveViewImgInner_short_header:
  assumes "dev s = Some d"
    and "d (dev_history (trace s)) (RunTransaction OC_NIKON_GetLiveViewImg []) = rep"
    and "rep_err rep = None"
    and "HeaderSize (model s) = hs"
    and "hs < int (length (rep_data rep))"
  shows "8 \<le> hs \<and> hs < 69 \<longrightarrow>
           getLiveViewImgInner E s =
             Returned (Inl ''failed to decode header'')
               (s\<lparr>trace := trace s @ [Dev (RunTransaction OC_NIKON_GetLiveViewImg [])]\<rparr>)"
    and "hs < 8 \<longrightarrow>
           getLiveViewImgInner E s =
             Panicked slice_bounds_out_of_range
               (s\<lparr>trace := trace s @ [Dev (RunTransaction OC_NIKON_GetLiveViewImg [])]\<rparr>)"
  using assms
  by (auto simp add: getLiveViewImgInner_def Let_def invoke_def and_then_def go_slice_def
      binary_Read_short)


lemma mock_server_simps:
  "dev (mock_server d hs) = Some d" "trace (mock_server d hs) = []"
  "HeaderSize (model (mock_server d hs)) = hs" "dummy (mock_server d hs) = False"
  "lrFPS (mock_server d hs) = 0" "maxResolution (mock_server d hs) = False"
  "QuirkSwitchMedia (model (mock_server d hs)) = False"
  by (simp_all add: mock_server_def NewLVServer_def mock_model_def)

lemma dev_history_append: "dev_history (xs @ ys) = dev_history xs @ dev_history ys"
  by (induction xs rule: dev_history.induct) simp_all

lemma trace_emit: "trace (emit e s) = trace s @ [e]"
  by (simp add: emit_def)

lemma emit_fields:
  "dev (emit e s) = dev s" "dummy (emit e s) = dummy s" "model (emit e s) = model s"
  "Frame (emit e s) = Frame s" "info (emit e s) = info s" "newFrameChan (emit e s) = newFrameChan s"
  "fpsRate (emit e s) = fpsRate s" "lrFPS (emit e s) = lrFPS s" "afInterval (emit e s) = afInterval s"
  "maxResolution (emit e s) = maxResolution s"
  by (simp_all add: emit_def)


text \<open>Rounding to float64 on a known value, 0.1; and the f-number 0.29, whose product
  with 100 is below 29 in float64 and truncates to 28.\<close>

lemma round_float64_tenth:
  "round_float64 (1 / 10) = Finite (3602879701896397 / 36028797018963968)"
  by code_simp






text \<open>The f-number 5.6: parsed to the nearest float64, multiplied by 100 and truncated.\<close>

lemma decimal_5_6: "decimal_literal ''5.6'' = Some (28 / 5)"
  by code_simp

lemma round_5_6: "round_float64 (28 / 5) = Finite (3152519739159347 / 562949953421312)"
  by code_simp

lemma mul_5_6: "f64_mul_const (Finite (3152519739159347 / 562949953421312)) 100 = Finite 560"
  by code_simp

lemma ParseFloat_5_6: "ParseFloat E ''5.6'' = Inr (Finite (3152519739159347 / 562949953421312))"
  by (simp add: ParseFloat_def decimal_5_6 round_5_6)

lemma uint16_560: "uint16_of_float64 E (Finite 560) = 560"
  by (simp add: uint16_of_float64_def)

lemma FN_5_6:
  "uint16_of_float64 E (f64_mul_const (Finite (3152519739159347 / 562949953421312)) 100) = 560"
  by (simp only: mul_5_6 uint16_560)















text \<open>Laws of sequencing, and the state after a positive AF interval.\<close>

lemma and_then_Returned: "and_then (Returned a s) f = f a s"
  by (simp add: and_then_def)

lemma and_then_Panicked: "and_then (Panicked p s) f = Panicked p s"
  by (simp add: and_then_def)

lemma and_then_assoc: "and_then (and_then m f) g = and_then m (\<lambda>a s. and_then (f a s) g)"
  by (cases m) (simp_all add: and_then_def)

lemma and_then_unit: "and_then m (\<lambda>(u::unit) s. Returned () s) = m"
  by (cases m) (simp_all add: and_then_def)

lemma HandleControl_rest_ignores_AFInterval:
  "HandleControl_rest E (p\<lparr>AFInterval := x\<rparr>) s = HandleControl_rest E p s"
  by (simp add: HandleControl_rest_def)

lemma AF_positive_state:
  "logf Debug ''HandleControl: set AF interval: %d'' [A_int v]
     (emit (Ticker_SetInterval (Duration_mul v Second))
        ((emit Ticker_Start (logf Debug ''HandleControl: enable AF'' []
            (setInfo (Some v) None s)))\<lparr>afInterval := v\<rparr>)) =
   s\<lparr>info := (info s)\<lparr>info_AF := v\<rparr>,
     afInterval := v,
     trace := trace s @ [Log Debug ''HandleControl: enable AF'' [], Ticker_Start,
                         Ticker_SetInterval (Duration_mul v Second),
                         Log Debug ''HandleControl: set AF interval: %d'' [A_int v]]\<rparr>"
  by (simp add: setInfo_def emit_def logf_def)

text \<open>\<^verbatim>\<open>bitScan\<close>: the loop finds the lowest set bit; every value but 0 has one.\<close>

lemma bitScan_test: "(val :: 32 word) AND push_bit i 1 > 0 \<longleftrightarrow> bit val i"
  by (simp add: word_gt_0 bit_iff_and_push_bit_not_eq_0)

lemma bitScan_from_unfold:
  "bitScan_from val i =
     (if i < 64 then (if bit val i then int i else bitScan_from val (i + 1)) else - 1)"
  by (subst bitScan_from.simps) (simp only: bitScan_test)

lemma bitScan_from_zero: "bitScan_from 0 i = - 1"
proof (induction "64 - i" arbitrary: i)
  case 0
  then show ?case by (subst bitScan_from_unfold) simp
next
  case (Suc n)
  then have "bitScan_from 0 (i + 1) = - 1" by simp
  then show ?case by (subst bitScan_from_unfold) simp
qed

lemma bitScan_from_lowest:
  assumes "lowest_set_bit val k" and "i \<le> k"
  shows "bitScan_from val i = int k"
  using assms(2)
proof (induction "k - i" arbitrary: i)
  case 0
  then have "i = k" by simp
  moreover have "k < 32" using assms(1) bit_imp_le_length [of val k]
    by (simp add: lowest_set_bit_def)
  ultimately show ?case using assms(1)
    by (subst bitScan_from_unfold) (simp add: lowest_set_bit_def)
next
  case (Suc n)
  then have lt: "i < k" by simp
  have "k < 32" using assms(1) bit_imp_le_length [of val k]
    by (simp add: lowest_set_bit_def)
  then have i64: "i < 64" using lt by simp
  have "bit (take_bit k val) i = (i < k \<and> bit val i)"
    by (simp add: bit_take_bit_iff)
  then have nb: "\<not> bit val i" using assms(1) lt by (simp add: lowest_set_bit_def)
  have "bitScan_from val i = bitScan_from val (i + 1)"
    using i64 nb by (subst bitScan_from_unfold) simp
  also have "\<dots> = int k" using Suc lt by simp
  finally show ?case .
qed

lemma bitScan_zero: "bitScan 0 = - 1"
  by (simp add: bitScan_def bitScan_from_zero)

lemma bitScan_lowest: "lowest_set_bit val k \<Longrightarrow> bitScan val = int k"
  by (simp add: bitScan_def bitScan_from_lowest)

lemma lowest_set_bit_exists:
  assumes "val \<noteq> 0"
  shows "\<exists>k < 32. lowest_set_bit val k"
proof -
  from assms obtain n where n: "bit val n"
    by (auto simp add: bit_eq_iff)
  define k where "k = (LEAST m. bit val m)"
  have bk: "bit val k" unfolding k_def using n by (rule LeastI)
  have below: "\<And>j. j < k \<Longrightarrow> \<not> bit val j"
    unfolding k_def by (rule not_less_Least)
  have "take_bit k val = 0"
    by (rule bit_eqI) (auto simp add: bit_take_bit_iff below)
  moreover have "k < 32" using bk bit_imp_le_length [of val k] by simp
  ultimately show ?thesis using bk by (auto simp add: lowest_set_bit_def)
qed


lemma prepare_prohibited_device:
  "startLiveView_prepare mock_env (mock_server (prohibited_device v) 384) =
     Returned None
       ((mock_server (prohibited_device v) 384)
          \<lparr>trace := [Dev (RunTransactionWithNoParams OC_NIKON_DeviceReady)]\<rparr>)"
  by (simp add: startLiveView_prepare_def invoke_def and_then_def mock_server_simps
      prohibited_device_def mock_device_def mock_reply_def)

lemma prohibited_device_replies:
  "rep_err (prohibited_device v hist (RunTransactionWithNoParams OC_NIKON_StartLiveView)) =
     Some (RCError RC_NIKON_InvalidStatus)"
  "rep_err (prohibited_device v hist (GetDevicePropValue pc)) = None"
  "rep_uint32 (prohibited_device v hist c) = v"
  by (simp_all add: prohibited_device_def mock_device_def mock_reply_def)

text \<open>The loop over the enumerated values, and what \<^verbatim>\<open>changeResolution\<close> writes.\<close>

lemma assert_uint64s_length:
  "assert_uint64s f vs acc = (cs, True) \<Longrightarrow> length cs = length acc + length vs"
  by (induction f vs acc rule: assert_uint64s.induct) auto

lemma assert_uint64s_all:
  "assert_uint64s f (map V_uint64 ws) acc = (acc @ map f ws, True)"
  by (induction ws arbitrary: acc) simp_all

lemma changeResolution_writes_last:
  assumes "dev s = Some d"
    and "rep = d (dev_history (trace s)) (GetDevicePropDesc DPC_NIKON_Resolution)"
    and "rep_err rep = None"
    and "Form (rep_desc rep) = PropDescEnumForm (map V_uint64 ws)"
    and "ws \<noteq> []"
    and "w = (case ResolutionType (model s) of
                ResolutionType64 \<Rightarrow> [SetDevicePropValue DPC_NIKON_Resolution (Resolution64 (last ws))]
              | ResolutionType8 \<Rightarrow> [SetDevicePropValue DPC_NIKON_Resolution (Resolution8 (ucast (last ws)))]
              | ResolutionType_other \<Rightarrow> [])"
  shows "\<exists>r s'. changeResolution E s = Returned r s'
           \<and> dev_history (trace s') =
               dev_history (trace s) @ GetDevicePropDesc DPC_NIKON_Resolution # w"
  using assms
  by (cases "ResolutionType (model s)")
     (auto simp add: changeResolution_def invoke_def and_then_def logf_def emit_def
        dev_history_append Let_def assert_uint64s_all last_conv_nth split: option.splits)

text \<open>The lock sequences, for unfolding.\<close>

lemmas lock_defs =
  mtp_wrapper_locks_def registerStreamClient_locks_def unregisterStreamClient_locks_def
  registerControlClient_locks_def unregisterControlClient_locks_def
  registerMotionClient_locks_def unregisterMotionClient_locks_def setInfo_locks_def
  copyFrame_locks_def frameCaptorSakura_set_locks_def workerBroadcastFrame_broadcast_locks_def
  workerBroadcastInfo_broadcast_locks_def HandleStream_locks_def HandleControl_locks_def
  HandleMotionJPEG_locks_def HandleSnapshot_locks_def Run_locks_def workerLV_locks_def
  workerAF_locks_def frameCaptorSakura_locks_def workerBroadcastFrame_locks_def
  workerBroadcastInfo_locks_def


subsection \<open>C1: decoding the live-view reply\<close>

text \<open>
  Claim C1, as stated: for every live-view reply buffer whose length exceeds
  \<^verbatim>\<open>model.HeaderSize\<close>, \<^verbatim>\<open>getLiveViewImgInner\<close> parses bytes \<open>[8 : HeaderSize]\<close> big-endian into
  the \<^verbatim>\<open>liveViewRaw\<close> layout and returns bytes \<open>[HeaderSize : ]\<close> as the JPEG payload.
  This fails for a header size below 69: bytes \<open>[8 : 64]\<close> are 56 bytes, fewer than the 61
  the layout needs, and a 1024-byte reply is answered with the error
  \<^verbatim>\<open>failed to decode header\<close> (the guard after \<^verbatim>\<open>binary.Read\<close>).
\<close>

theorem getLiveViewImgInner_short_header_counterexample:
  "HeaderSize (model (mock_server (lv_device (replicate 1024 0)) 64)) < int (length (replicate 1024 (0::byte)))
   \<and> getLiveViewImgInner mock_env (mock_server (lv_device (replicate 1024 0)) 64) =
     Returned (Inl ''failed to decode header'')
       ((mock_server (lv_device (replicate 1024 0)) 64)
          \<lparr>trace := [Dev (RunTransaction OC_NIKON_GetLiveViewImg [])]\<rparr>)"
  by (simp add: getLiveViewImgInner_def Let_def invoke_def and_then_def mock_server_simps
      lv_device_def mock_device_def mock_reply_def go_slice_def binary_Read_short)


text \<open>
  Claim C1, amended: when the device answers \<^verbatim>\<open>GetLiveViewImg\<close> without error with a buffer
  \<open>raw\<close> whose length exceeds \<^verbatim>\<open>HeaderSize\<close>, and \<^verbatim>\<open>HeaderSize\<close> is at least 69 (the 8-byte
  preamble and the 61 bytes of \<^verbatim>\<open>liveViewRaw\<close>), \<^verbatim>\<open>getLiveViewImgInner\<close> returns the frame
  whose 16-bit fields are the big-endian pairs at the offsets of the layout (8, 10, 12,
  14, then 24, 26, 28, 30), whose rotation is decoded from byte 37 (0 to 0 degrees, 1 to
  -90, 2 to +90, 3 to 180, any other to 0), whose autofocus state is decoded from byte 48
  (0 not active, 1 fail, 2 success), whose recording flag is byte 68, and whose JPEG is
  the bytes from \<^verbatim>\<open>HeaderSize\<close> on. (\<open>be_int16_value\<close> gives the value of a pair.)
\<close>

theorem getLiveViewImgInner_decodes_header:
  assumes "dev s = Some d"
    and "d (dev_history (trace s)) (RunTransaction OC_NIKON_GetLiveViewImg []) = rep"
    and "rep_err rep = None"
    and "rep_data rep = raw"
    and "HeaderSize (model s) = hs"
    and "69 \<le> hs"
    and "hs < int (length raw)"
  shows "getLiveViewImgInner E s =
     Returned (Inr \<lparr>LVWidth = be_int16 (raw ! 8) (raw ! 9),
                    LVHeight = be_int16 (raw ! 10) (raw ! 11),
                    Width = be_int16 (raw ! 12) (raw ! 13),
                    Height = be_int16 (raw ! 14) (raw ! 15),
                    FocusFrameWidth = be_int16 (raw ! 24) (raw ! 25),
                    FocusFrameHeight = be_int16 (raw ! 26) (raw ! 27),
                    FocusX = be_int16 (raw ! 28) (raw ! 29),
                    FocusY = be_int16 (raw ! 30) (raw ! 31),
                    Rotation = (if raw ! 37 = 1 then RotationMinus90
                                else if raw ! 37 = 2 then Rotation90
                                else if raw ! 37 = 3 then Rotation180 else Rotation0),
                    AutoFocus = (if raw ! 48 = 1 then AFFail
                                 else if raw ! 48 = 2 then AFSuccess else AFNotActive),
                    Recording = (raw ! 68 = 1),
                    JPEG = drop (nat hs) raw\<rparr>)
              (s\<lparr>trace := trace s @ [Dev (RunTransaction OC_NIKON_GetLiveViewImg [])]\<rparr>)"
proof -
  from assms(6,7) have len: "61 \<le> length (take (nat hs - 8) (drop 8 raw))"
    by simp
  from assms(6,7) have sl: "go_slice raw 8 hs = Some (take (nat hs - 8) (drop 8 raw))"
    by (simp add: go_slice_def)
  have nth: "\<And>i. i < 61 \<Longrightarrow> take (nat hs - 8) (drop 8 raw) ! i = raw ! (8 + i)"
    using assms(6,7) by simp
  show ?thesis
    using assms(1-5,7)
    by (simp add: getLiveViewImgInner_def Let_def invoke_def and_then_def sl
        binary_Read_offsets [OF len] nth rotation_of_def af_of_def)
qed

theorem getLiveViewImgInner_decodes_header_witness:
  "getLiveViewImgInner mock_env (mock_server (lv_device (replicate 69 2 @ [0xFF, 0xD8])) 69) =
     Returned (Inr \<lparr>LVWidth = 514, LVHeight = 514, Width = 514, Height = 514,
                    FocusFrameWidth = 514, FocusFrameHeight = 514, FocusX = 514, FocusY = 514,
                    Rotation = Rotation90, AutoFocus = AFSuccess, Recording = False,
                    JPEG = [0xFF, 0xD8]\<rparr>)
       ((mock_server (lv_device (replicate 69 2 @ [0xFF, 0xD8])) 69)
          \<lparr>trace := [Dev (RunTransaction OC_NIKON_GetLiveViewImg [])]\<rparr>)"
  using getLiveViewImgInner_decodes_header
    [of "mock_server (lv_device (replicate 69 2 @ [0xFF, 0xD8])) 69"
        "lv_device (replicate 69 2 @ [0xFF, 0xD8])"
        "mock_reply\<lparr>rep_data := replicate 69 2 @ [0xFF, 0xD8]\<rparr>"
        "replicate 69 2 @ [0xFF, 0xD8]" 69 mock_env]
  by (simp add: mock_server_simps lv_device_def mock_device_def mock_reply_def nth_append be_int16_def)


subsection \<open>C2: a reply no longer than the header\<close>

text \<open>
  Claim C2, on a server with a device attached (\<open>dev\<close> is not nil, so \<open>dummy\<close> is not
  set): when the capture succeeds with a reply whose length is at most
  \<^verbatim>\<open>model.HeaderSize\<close> (also exactly \<^verbatim>\<open>HeaderSize\<close>), \<^verbatim>\<open>getLiveViewImgInner\<close> returns the
  insufficient-length error, and the iteration of the frame captor publishes nothing:
  the frame, the info block, the new-frame channel and the rate counter are unchanged;
  it logs the warning, sleeps one second and ends (the loop continues).
\<close>

theorem insufficient_length_publishes_no_frame:
  assumes "dev s = Some d"
    and "\<not> dummy s"
    and "d (dev_history (trace s)) (RunTransaction OC_NIKON_GetLiveViewImg []) = rep"
    and "rep_err rep = None"
    and "int (length (rep_data rep)) \<le> HeaderSize (model s)"
  shows "getLiveViewImgInner E s =
           Returned (Inl ''failed to obtain an image: the data has insufficient length'')
             (s\<lparr>trace := trace s @ [Dev (RunTransaction OC_NIKON_GetLiveViewImg [])]\<rparr>)
       \<and> frameCaptorSakura_iteration E s =
           Returned ()
             (s\<lparr>trace := trace s
                   @ (if lrFPS s > 0 then [Sleep_until_last_plus (Second div lrFPS s)] else [])
                   @ [Dev (RunTransaction OC_NIKON_GetLiveViewImg []),
                      Log Warning ''frameCaptor: %s''
                        [A_str ''failed to obtain an image: the data has insufficient length''],
                      Sleep Second]\<rparr>)"
proof
  show "getLiveViewImgInner E s =
           Returned (Inl ''failed to obtain an image: the data has insufficient length'')
             (s\<lparr>trace := trace s @ [Dev (RunTransaction OC_NIKON_GetLiveViewImg [])]\<rparr>)"
    using assms by (simp add: getLiveViewImgInner_def Let_def invoke_def and_then_def)
next
  show "frameCaptorSakura_iteration E s =
           Returned ()
             (s\<lparr>trace := trace s
                   @ (if lrFPS s > 0 then [Sleep_until_last_plus (Second div lrFPS s)] else [])
                   @ [Dev (RunTransaction OC_NIKON_GetLiveViewImg []),
                      Log Warning ''frameCaptor: %s''
                        [A_str ''failed to obtain an image: the data has insufficient length''],
                      Sleep Second]\<rparr>)"
    using assms
    by (simp add: frameCaptorSakura_iteration_def getLiveViewImg_def getLiveViewImgInner_def
        Let_def invoke_def and_then_def emit_def logf_def dev_history_append)
qed

theorem insufficient_length_publishes_no_frame_witness:
  "getLiveViewImgInner mock_env (mock_server (lv_device (replicate 384 0)) 384) =
           Returned (Inl ''failed to obtain an image: the data has insufficient length'')
             ((mock_server (lv_device (replicate 384 0)) 384)
                \<lparr>trace := [Dev (RunTransaction OC_NIKON_GetLiveViewImg [])]\<rparr>)
       \<and> frameCaptorSakura_iteration mock_env (mock_server (lv_device (replicate 384 0)) 384) =
           Returned ()
             ((mock_server (lv_device (replicate 384 0)) 384)
                \<lparr>trace := [Dev (RunTransaction OC_NIKON_GetLiveViewImg []),
                      Log Warning ''frameCaptor: %s''
                        [A_str ''failed to obtain an image: the data has insufficient length''],
                      Sleep Second]\<rparr>)"
  using insufficient_length_publishes_no_frame
    [of "mock_server (lv_device (replicate 384 0)) 384" "lv_device (replicate 384 0)"
        "mock_reply\<lparr>rep_data := replicate 384 0\<rparr>" mock_env]
  by (simp add: mock_server_simps lv_device_def mock_device_def mock_reply_def)


subsection \<open>C3: setting the f-number\<close>







subsection \<open>C4: the order of the fields of a control message\<close>

text \<open>
  Claim C4, for one received control message \<open>p\<close>. (1) When the AF interval is present
  with a value \<open>v \<le> 0\<close>, the message only updates \<open>info.AF\<close>, logs and stops the ticker:
  every other field of the message is skipped. (2) When it is present with \<open>v > 0\<close>, the
  ticker is started, \<open>v\<close> is stored in \<open>afInterval\<close>, the interval is set to \<open>v\<close> seconds,
  and the message is then handled as if the AF interval were absent. (3) When the AF
  interval is absent or positive, handling the message is handling, one after the other,
  the five messages that carry only its AF interval, only its AF-focus-now, only its
  rate limit, only its ISO and only its f-number, in this order.
\<close>

theorem HandleControl_message_field_order:
  "(\<forall>v. AFInterval p = Some v \<and> v \<le> 0 \<longrightarrow>
      HandleControl_message E p s =
        Returned ()
          (s\<lparr>info := (info s)\<lparr>info_AF := v\<rparr>,
             trace := trace s @ [Log Debug ''HandleControl: disable AF'' [], Ticker_Stop]\<rparr>))
   \<and> (\<forall>v. AFInterval p = Some v \<and> 0 < v \<longrightarrow>
      HandleControl_message E p s =
        HandleControl_message E (p\<lparr>AFInterval := None\<rparr>)
          (s\<lparr>info := (info s)\<lparr>info_AF := v\<rparr>,
             afInterval := v,
             trace := trace s @ [Log Debug ''HandleControl: enable AF'' [], Ticker_Start,
                                 Ticker_SetInterval (Duration_mul v Second),
                                 Log Debug ''HandleControl: set AF interval: %d'' [A_int v]]\<rparr>))
   \<and> ((\<forall>v. AFInterval p = Some v \<longrightarrow> 0 < v) \<longrightarrow>
      HandleControl_message E p s =
        and_then (HandleControl_message E (no_fields\<lparr>AFInterval := AFInterval p\<rparr>) s) (\<lambda>u s1.
        and_then (HandleControl_message E (no_fields\<lparr>AFFocusNow := AFFocusNow p\<rparr>) s1) (\<lambda>u s2.
        and_then (HandleControl_message E (no_fields\<lparr>LRFPS := LRFPS p\<rparr>) s2) (\<lambda>u s3.
        and_then (HandleControl_message E (no_fields\<lparr>cp_ISO := cp_ISO p\<rparr>) s3) (\<lambda>u s4.
          HandleControl_message E (no_fields\<lparr>cp_FN := cp_FN p\<rparr>) s4)))))"
proof (intro conjI allI impI)
  fix v assume "AFInterval p = Some v \<and> v \<le> 0"
  then show "HandleControl_message E p s =
        Returned ()
          (s\<lparr>info := (info s)\<lparr>info_AF := v\<rparr>,
             trace := trace s @ [Log Debug ''HandleControl: disable AF'' [], Ticker_Stop]\<rparr>)"
    by (simp add: HandleControl_message_def setInfo_def emit_def logf_def)
next
  fix v assume "AFInterval p = Some v \<and> 0 < v"
  then show "HandleControl_message E p s =
        HandleControl_message E (p\<lparr>AFInterval := None\<rparr>)
          (s\<lparr>info := (info s)\<lparr>info_AF := v\<rparr>,
             afInterval := v,
             trace := trace s @ [Log Debug ''HandleControl: enable AF'' [], Ticker_Start,
                                 Ticker_SetInterval (Duration_mul v Second),
                                 Log Debug ''HandleControl: set AF interval: %d'' [A_int v]]\<rparr>)"
    by (simp add: HandleControl_message_def HandleControl_rest_ignores_AFInterval Let_def
        AF_positive_state)
next
  assume pos: "\<forall>v. AFInterval p = Some v \<longrightarrow> 0 < v"
  show "HandleControl_message E p s =
        and_then (HandleControl_message E (no_fields\<lparr>AFInterval := AFInterval p\<rparr>) s) (\<lambda>u s1.
        and_then (HandleControl_message E (no_fields\<lparr>AFFocusNow := AFFocusNow p\<rparr>) s1) (\<lambda>u s2.
        and_then (HandleControl_message E (no_fields\<lparr>LRFPS := LRFPS p\<rparr>) s2) (\<lambda>u s3.
        and_then (HandleControl_message E (no_fields\<lparr>cp_ISO := cp_ISO p\<rparr>) s3) (\<lambda>u s4.
          HandleControl_message E (no_fields\<lparr>cp_FN := cp_FN p\<rparr>) s4))))"
    using pos
    by (cases "AFInterval p"; cases "LRFPS p"; cases "cp_ISO p"; cases "cp_FN p")
       (simp_all add: HandleControl_message_def HandleControl_rest_def no_fields_def Let_def
          and_then_Returned and_then_assoc and_then_unit)
qed


theorem HandleControl_message_field_order_witness:
  "HandleControl_message mock_env
     \<lparr>AFInterval = Some 0, AFFocusNow = Some True, LRFPS = Some 30, cp_ISO = Some 400,
      cp_FN = Some ''5.6''\<rparr> (mock_server ok_device 384) =
     Returned ()
       ((mock_server ok_device 384)
          \<lparr>info := InfoPayload_zero\<lparr>info_AF := 0\<rparr>,
            trace := [Log Debug ''HandleControl: disable AF'' [], Ticker_Stop]\<rparr>)
   \<and> HandleControl_message mock_env
     \<lparr>AFInterval = Some 3, AFFocusNow = Some True, LRFPS = Some 30, cp_ISO = Some 400,
      cp_FN = Some ''5.6''\<rparr> (mock_server ok_device 384) =
     Returned ()
       ((mock_server ok_device 384)
          \<lparr>info := InfoPayload_zero\<lparr>info_AF := 3, info_LR := 30\<rparr>,
            afInterval := 3,
            lrFPS := 30,
            trace := [Log Debug ''HandleControl: enable AF'' [], Ticker_Start,
                      Ticker_SetInterval 3000000000,
                      Log Debug ''HandleControl: set AF interval: %d'' [A_int 3],
                      Log Debug ''HandleControl: focus now'' [], afNowChan_send,
                      Log Debug ''HandleControl: set rate limit: %d'' [A_int 30],
                      Log Debug ''HandleControl: set ISO: %d'' [A_int 400],
                      Dev (SetDevicePropValue DPC_ExposureIndex (ISO 400)),
                      Log Debug ''HandleControl: set f-number: %s'' [A_str ''5.6''],
                      Dev (RunTransactionWithNoParams OC_NIKON_EndLiveView),
                      Dev (SetDevicePropValue DPC_FNumber (FN 560)),
                      Dev (RunTransactionWithNoParams OC_NIKON_StartLiveView)]\<rparr>)"
  using HandleControl_message_field_order
    [of "\<lparr>AFInterval = Some 0, AFFocusNow = Some True, LRFPS = Some 30, cp_ISO = Some 400,
          cp_FN = Some ''5.6''\<rparr>" mock_env "mock_server ok_device 384"]
    HandleControl_message_field_order
    [of "\<lparr>AFInterval = Some 3, AFFocusNow = Some True, LRFPS = Some 30, cp_ISO = Some 400,
          cp_FN = Some ''5.6''\<rparr>" mock_env "mock_server ok_device 384"]
  by (simp add: HandleControl_message_def HandleControl_rest_def no_fields_def Let_def
      setInfo_def emit_def logf_def setISO_def setFN_def invoke_def and_then_def
      mock_server_def NewLVServer_def ok_device_def mock_device_def mock_reply_def
      ParseFloat_5_6 FN_5_6 Duration_mul_def Second_def signed_take_bit_eq_take_bit_shift
      del: f64_mul_const.simps)


subsection \<open>C5: the live-view status\<close>

text \<open>
  Claim C5, on a server with a device attached (\<open>dev\<close> is not nil, so \<open>dummy\<close> is not
  set; without a device no read is made). \<^verbatim>\<open>getLiveViewStatus\<close> reports live view
  as on exactly when the read of \<^verbatim>\<open>LiveViewStatus\<close> returns \<^verbatim>\<open>io.EOF\<close>; the iteration of
  \<^verbatim>\<open>workerLV\<close> then does nothing more. A read without error reports off, and the iteration
  goes on with \<^verbatim>\<open>startLiveView\<close>, warning if it fails. Any other error is returned, and
  the iteration logs it and ends: its only device call is the status read, so
  \<^verbatim>\<open>startLiveView\<close> (whose first step is the device call \<^verbatim>\<open>DeviceReady\<close>) was not invoked.
\<close>

theorem getLiveViewStatus_on_iff_EOF:
  assumes "dev s = Some d"
    and "\<not> dummy s"
    and "c = GetDevicePropValue DPC_NIKON_LiveViewStatus"
    and "rep = d (dev_history (trace s)) c"
    and "s1 = s\<lparr>trace := trace s @ [Dev c]\<rparr>"
  shows "(getLiveViewStatus E s = Returned (True, None) s1) = (rep_err rep = Some io_EOF)
       \<and> (rep_err rep = Some io_EOF \<longrightarrow>
            getLiveViewStatusInner s = Returned (None, True) s1
            \<and> workerLV_iteration E s = Returned () s1)
       \<and> (rep_err rep = None \<longrightarrow>
            getLiveViewStatusInner s = Returned (None, False) s1
            \<and> getLiveViewStatus E s = Returned (False, None) s1
            \<and> workerLV_iteration E s =
                and_then (startLiveView E s1) (\<lambda>err s2.
                  case err of
                    Some msg \<Rightarrow>
                      Returned () (s2\<lparr>trace := trace s2 @ [Log Warning ''workerLV: %s'' [A_str msg]]\<rparr>)
                  | None \<Rightarrow> Returned () s2))
       \<and> (\<forall>e. rep_err rep = Some e \<and> e \<noteq> io_EOF \<longrightarrow>
            getLiveViewStatusInner s = Returned (Some e, False) s1
            \<and> getLiveViewStatus E s =
                Returned (False, Some (''failed to get live view status: '' @ Error_of E e)) s1
            \<and> workerLV_iteration E s =
                Returned ()
                  (s\<lparr>trace := trace s @
                       [Dev c,
                        Log Warning ''workerLV: %s''
                          [A_str (''failed to get live view status: '' @ Error_of E e)]]\<rparr>))"
  using assms
  by (cases "rep_err rep")
     (auto simp add: getLiveViewStatus_def getLiveViewStatusInner_def workerLV_iteration_def
        invoke_def and_then_def Let_def logf_def emit_def
        split: outcome.splits option.splits)

theorem getLiveViewStatus_on_iff_EOF_witness:
  "getLiveViewStatus mock_env (mock_server live_view_on_device 384) =
     Returned (True, None)
       ((mock_server live_view_on_device 384)
          \<lparr>trace := [Dev (GetDevicePropValue DPC_NIKON_LiveViewStatus)]\<rparr>)
   \<and> workerLV_iteration mock_env (mock_server live_view_on_device 384) =
     Returned ()
       ((mock_server live_view_on_device 384)
          \<lparr>trace := [Dev (GetDevicePropValue DPC_NIKON_LiveViewStatus)]\<rparr>)
   \<and> getLiveViewStatus mock_env (mock_server ok_device 384) =
     Returned (False, None)
       ((mock_server ok_device 384)\<lparr>trace := [Dev (GetDevicePropValue DPC_NIKON_LiveViewStatus)]\<rparr>)
   \<and> workerLV_iteration mock_env (mock_server ok_device 384) =
     Returned ()
       ((mock_server ok_device 384)
          \<lparr>trace := [Dev (GetDevicePropValue DPC_NIKON_LiveViewStatus),
                     Dev (RunTransactionWithNoParams OC_NIKON_DeviceReady),
                     Dev (RunTransactionWithNoParams OC_NIKON_StartLiveView)]\<rparr>)
   \<and> workerLV_iteration mock_env (mock_server broken_device 384) =
     Returned ()
       ((mock_server broken_device 384)
          \<lparr>trace := [Dev (GetDevicePropValue DPC_NIKON_LiveViewStatus),
                     Log Warning ''workerLV: %s''
                       [A_str ''failed to get live view status: LIBUSB_ERROR_IO'']]\<rparr>)"
  using getLiveViewStatus_on_iff_EOF
    [of "mock_server live_view_on_device 384" live_view_on_device
        "GetDevicePropValue DPC_NIKON_LiveViewStatus"
        "mock_reply\<lparr>rep_err := Some io_EOF\<rparr>"
        "(mock_server live_view_on_device 384)
           \<lparr>trace := [Dev (GetDevicePropValue DPC_NIKON_LiveViewStatus)]\<rparr>" mock_env]
    getLiveViewStatus_on_iff_EOF
    [of "mock_server ok_device 384" ok_device
        "GetDevicePropValue DPC_NIKON_LiveViewStatus" mock_reply
        "(mock_server ok_device 384)
           \<lparr>trace := [Dev (GetDevicePropValue DPC_NIKON_LiveViewStatus)]\<rparr>" mock_env]
    getLiveViewStatus_on_iff_EOF
    [of "mock_server broken_device 384" broken_device
        "GetDevicePropValue DPC_NIKON_LiveViewStatus"
        "mock_reply\<lparr>rep_err := Some (other_error ''LIBUSB_ERROR_IO'')\<rparr>"
        "(mock_server broken_device 384)
           \<lparr>trace := [Dev (GetDevicePropValue DPC_NIKON_LiveViewStatus)]\<rparr>" mock_env]
  by (simp add: mock_server_simps live_view_on_device_def ok_device_def broken_device_def
      mock_device_def mock_reply_def startLiveView_def startLiveView_prepare_def
      startLiveView_start_def invoke_def and_then_def)


subsection \<open>C6: the reason live view is prohibited\<close>

text \<open>
  Claim C6. When the preparation of \<^verbatim>\<open>startLiveView\<close> has passed and \<^verbatim>\<open>StartLiveView\<close> fails
  with \<^verbatim>\<open>InvalidStatus\<close>, the prohibit-condition bitmap \<open>v\<close> is read and the error returned
  is \<^verbatim>\<open>failed to start live view, reason:\<close> followed by the reason of \<open>bitScan v\<close>.
  \<^verbatim>\<open>bitScan\<close> returns \<open>-1\<close> for 0 and the index of the lowest set bit otherwise; the reason
  is \<^verbatim>\<open>(empty)\<close> for the all-zero bitmap, \<^verbatim>\<open>insufficient battery\<close> when the lowest set bit
  is 8, \<^verbatim>\<open>no card inserted\<close> when it is 14, and \<^verbatim>\<open>unknown reason\<close> when it is not in the
  table.
\<close>

theorem startLiveView_InvalidStatus_reason:
  assumes "startLiveView_prepare E s = Returned None s1"
    and "dev s1 = Some d"
    and "h = dev_history (trace s1)"
    and "rep_err (d h (RunTransactionWithNoParams OC_NIKON_StartLiveView)) =
           Some (RCError RC_NIKON_InvalidStatus)"
    and "r = d (h @ [RunTransactionWithNoParams OC_NIKON_StartLiveView])
               (GetDevicePropValue DPC_NIKON_LiveViewProhibitCondition)"
    and "rep_err r = None"
    and "v = rep_uint32 r"
    and "s2 = s1\<lparr>trace := trace s1 @
                 [Dev (RunTransactionWithNoParams OC_NIKON_StartLiveView),
                  Log Error ''failed to start live view (InvalidStatus). Investigating the reason...'' [],
                  Dev (GetDevicePropValue DPC_NIKON_LiveViewProhibitCondition)]\<rparr>"
  shows "startLiveView E s =
           Returned (Some (''failed to start live view, reason: '' @ prohibit_reason (bitScan v))) s2
       \<and> (v = 0 \<longrightarrow> bitScan v = - 1 \<and> prohibit_reason (bitScan v) = ''(empty)'')
       \<and> (\<forall>k. lowest_set_bit v k \<longrightarrow> bitScan v = int k)
       \<and> (lowest_set_bit v 8 \<longrightarrow> prohibit_reason (bitScan v) = ''insufficient battery'')
       \<and> (lowest_set_bit v 14 \<longrightarrow> prohibit_reason (bitScan v) = ''no card inserted'')
       \<and> (\<forall>k. lowest_set_bit v k
              \<and> k \<notin> set [0, 2, 4, 5, 6, 7, 8, 9, 11, 12, 13, 14, 15, 16, 17, 18, 19, 20, 21, 22, 24]
            \<longrightarrow> prohibit_reason (bitScan v) = ''unknown reason'')"
proof (intro conjI allI impI)
  show "startLiveView E s =
           Returned (Some (''failed to start live view, reason: '' @ prohibit_reason (bitScan v))) s2"
    using assms
    by (simp add: startLiveView_def startLiveView_start_def readLiveViewProhibitCondition_def
        invoke_def and_then_def logf_def emit_def dev_history_append)
next
  assume "v = 0"
  then show "bitScan v = - 1" by (simp add: bitScan_zero)
next
  assume "v = 0"
  then show "prohibit_reason (bitScan v) = ''(empty)''"
    by (simp add: bitScan_zero prohibit_reason_def)
next
  fix k assume "lowest_set_bit v k"
  then show "bitScan v = int k" by (rule bitScan_lowest)
next
  assume "lowest_set_bit v 8"
  then show "prohibit_reason (bitScan v) = ''insufficient battery''"
    by (simp add: bitScan_lowest prohibit_reason_def)
next
  assume "lowest_set_bit v 14"
  then show "prohibit_reason (bitScan v) = ''no card inserted''"
    by (simp add: bitScan_lowest prohibit_reason_def)
next
  fix k
  assume a: "lowest_set_bit v k
     \<and> k \<notin> set [0, 2, 4, 5, 6, 7, 8, 9, 11, 12, 13, 14, 15, 16, 17, 18, 19, 20, 21, 22, 24]"
  then have "bitScan v = int k" by (simp add: bitScan_lowest)
  with a show "prohibit_reason (bitScan v) = ''unknown reason''"
    by (simp add: prohibit_reason_def)
qed

theorem startLiveView_InvalidStatus_reason_witness:
  "lowest_set_bit 0x100 8
   \<and> startLiveView mock_env (mock_server (prohibited_device 0x100) 384) =
       Returned (Some ''failed to start live view, reason: insufficient battery'')
         ((mock_server (prohibited_device 0x100) 384)
            \<lparr>trace := [Dev (RunTransactionWithNoParams OC_NIKON_DeviceReady),
                  Dev (RunTransactionWithNoParams OC_NIKON_StartLiveView),
                  Log Error ''failed to start live view (InvalidStatus). Investigating the reason...'' [],
                  Dev (GetDevicePropValue DPC_NIKON_LiveViewProhibitCondition)]\<rparr>)
   \<and> bitScan 0x100 = 8"
proof -
  have low: "lowest_set_bit 0x100 8" by (simp add: lowest_set_bit_def)
  have dv: "dev ((mock_server (prohibited_device 0x100) 384)
              \<lparr>trace := [Dev (RunTransactionWithNoParams OC_NIKON_DeviceReady)]\<rparr>)
            = Some (prohibited_device 0x100)"
    by (simp add: mock_server_simps)
  note th = startLiveView_InvalidStatus_reason
    [OF prepare_prohibited_device [of "0x100"] dv refl prohibited_device_replies(1) refl
        prohibited_device_replies(2) refl refl]
  from th [THEN conjunct1]
  have A: "startLiveView mock_env (mock_server (prohibited_device 0x100) 384) =
       Returned (Some (''failed to start live view, reason: '' @ prohibit_reason (bitScan 0x100)))
         ((mock_server (prohibited_device 0x100) 384)
            \<lparr>trace := [Dev (RunTransactionWithNoParams OC_NIKON_DeviceReady),
                  Dev (RunTransactionWithNoParams OC_NIKON_StartLiveView),
                  Log Error ''failed to start live view (InvalidStatus). Investigating the reason...'' [],
                  Dev (GetDevicePropValue DPC_NIKON_LiveViewProhibitCondition)]\<rparr>)"
    by (simp add: prohibited_device_replies)
  from th [THEN conjunct2, THEN conjunct2, THEN conjunct2, THEN conjunct1] low
  have B: "prohibit_reason (bitScan 0x100) = ''insufficient battery''"
    by (simp add: prohibited_device_replies)
  from th [THEN conjunct2, THEN conjunct2, THEN conjunct1] low
  have C: "bitScan 0x100 = 8"
    by (simp add: prohibited_device_replies)
  from low A B C show ?thesis by simp
qed


subsection \<open>C7: the resolution written by \<^verbatim>\<open>startLiveView\<close>\<close>

text \<open>
  Claim C7 says that, with \<open>maxResolution\<close> set, \<^verbatim>\<open>startLiveView\<close> writes back the
  numerically largest enumerated value. The code writes \<^verbatim>\<open>choices[len(choices)-1]\<close>, the
  last enumerated value (\<open>changeResolution_writes_last\<close>), while logging it as the largest
  choice. On a device that enumerates 2, then 1, \<^verbatim>\<open>startLiveView\<close> writes 1.
\<close>

theorem startLiveView_maxResolution_writes_last_choice:
  "startLiveView mock_env
     ((mock_server (resolution_device [V_uint64 2, V_uint64 1]) 384)\<lparr>maxResolution := True\<rparr>) =
   Returned None
     ((mock_server (resolution_device [V_uint64 2, V_uint64 1]) 384)
        \<lparr>maxResolution := True,
          trace := [Dev (RunTransactionWithNoParams OC_NIKON_DeviceReady),
                    Log Info ''getting available resolutions'' [],
                    Dev (GetDevicePropDesc DPC_NIKON_Resolution),
                    Log Info ''available resolutions (higher is larger): %v'' [A_uint64s [2, 1]],
                    Log Info ''automatically use the largest choice: %d'' [A_int 1],
                    Dev (SetDevicePropValue DPC_NIKON_Resolution (Resolution64 1)),
                    Dev (RunTransactionWithNoParams OC_NIKON_StartLiveView)]\<rparr>)"
  by (simp add: startLiveView_def startLiveView_prepare_def startLiveView_start_def
      changeResolution_def invoke_def and_then_def logf_def emit_def mock_server_def
      NewLVServer_def mock_model_def resolution_device_def mock_device_def mock_reply_def)


subsection \<open>C8: a server without a device\<close>

text \<open>
  Claim C8 says that a server constructed without a device (\<open>dev\<close> nil, hence \<open>dummy\<close>
  set) runs end to end. Every wrapper of the device gateway does answer without the
  device, and the iterations of \<^verbatim>\<open>workerLV\<close> and of the frame captor do not touch it. But
  \<^verbatim>\<open>Run\<close> itself starts with \<^verbatim>\<open>s.dev.ID()\<close>, a method call on the nil interface: it panics
  before any worker is started (the deferred \<^verbatim>\<open>endLiveView\<close> runs and returns, and the
  panic goes on).
\<close>

theorem Run_without_device_panics:
  "endLiveView E (NewLVServer E None mr) = Returned None (NewLVServer E None mr)
   \<and> getLiveViewStatus E (NewLVServer E None mr) = Returned (True, None) (NewLVServer E None mr)
   \<and> autoFocus E (NewLVServer E None mr) = Returned None (NewLVServer E None mr)
   \<and> getLiveViewImg E (NewLVServer E None mr) =
       Returned (Inr (LiveView_zero E)) (NewLVServer E None mr)
   \<and> getISOs E (NewLVServer E None mr) =
       Returned ([100, 1000, 10000], 100, None) (NewLVServer E None mr)
   \<and> setISO E isov (NewLVServer E None mr) = Returned None (NewLVServer E None mr)
   \<and> getFNs E (NewLVServer E None mr) =
       Returned ([''3.5'', ''10'', ''22''], ''3.5'', None) (NewLVServer E None mr)
   \<and> setFN E fn (NewLVServer E None mr) = Returned None (NewLVServer E None mr)
   \<and> workerLV_iteration E (NewLVServer E None mr) = Returned () (NewLVServer E None mr)
   \<and> frameCaptorSakura_iteration E (NewLVServer E None mr) =
       Returned () ((NewLVServer E None mr)\<lparr>trace := [Sleep Second]\<rparr>)
   \<and> Run E (NewLVServer E None mr) = Panicked nil_pointer_dereference (NewLVServer E None mr)"
  by (simp add: NewLVServer_def endLiveView_def getLiveViewStatus_def autoFocus_def
      getLiveViewImg_def getISOs_def setISO_def getFNs_def setFN_def workerLV_iteration_def
      frameCaptorSakura_iteration_def Run_def with_deferred_def invoke_def and_then_def
      emit_def)

subsection \<open>C9: the order of lock acquisition\<close>

text \<open>
  Claim C9 says that no code path acquires two of the locks against the declared order,
  in particular \<^verbatim>\<open>frameLock\<close> while holding \<^verbatim>\<open>infoLock\<close>. The closure \<^verbatim>\<open>broadcast\<close> of
  \<^verbatim>\<open>workerBroadcastInfo\<close> holds \<^verbatim>\<open>controlLock\<close> and \<^verbatim>\<open>infoLock\<close> when it calls \<^verbatim>\<open>copyFrame\<close>,
  which takes \<^verbatim>\<open>frameLock\<close>: the one inversion among the handlers and workers. (The frame
  captor takes \<^verbatim>\<open>frameLock\<close>, then \<^verbatim>\<open>infoLock\<close>.)
\<close>

theorem workerBroadcastInfo_inverts_lock_order:
  "inversions [] workerBroadcastInfo_locks = [(infoLock, frameLock)]
   \<and> inversions [] frameCaptorSakura_locks = []
   \<and> inversions [] workerBroadcastFrame_locks = []
   \<and> inversions [] workerLV_locks = []
   \<and> inversions [] workerAF_locks = []
   \<and> inversions [] Run_locks = []
   \<and> inversions [] HandleStream_locks = []
   \<and> inversions [] HandleControl_locks = []
   \<and> inversions [] HandleMotionJPEG_locks = []
   \<and> inversions [] HandleSnapshot_locks = []"
  by (simp add: lock_defs)


subsection \<open>C10: an empty enumeration of resolutions\<close>

text \<open>
  Claim C10. When the \<^verbatim>\<open>Resolution\<close> descriptor is read without error and has the
  enumeration form, \<^verbatim>\<open>changeResolution\<close> on an empty \<^verbatim>\<open>Values\<close> sequence does not return an
  error: it panics with an index out of range, at the log line that reads
  \<^verbatim>\<open>choices[len(choices)-1]\<close>. On a non-empty sequence it returns.
\<close>

theorem changeResolution_empty_choices_panics:
  assumes "dev s = Some d"
    and "rep = d (dev_history (trace s)) (GetDevicePropDesc DPC_NIKON_Resolution)"
    and "rep_err rep = None"
    and "Form (rep_desc rep) = PropDescEnumForm vs"
  shows "(vs = [] \<longrightarrow>
           changeResolution E s =
             Panicked index_out_of_range
               (s\<lparr>trace := trace s @
                    [Log Info ''getting available resolutions'' [],
                     Dev (GetDevicePropDesc DPC_NIKON_Resolution),
                     Log Info ''available resolutions (higher is larger): %v'' [A_uint64s []]]\<rparr>))
       \<and> (vs \<noteq> [] \<longrightarrow> (\<exists>r s'. changeResolution E s = Returned r s'))"
proof (intro conjI impI)
  assume "vs = []"
  then show "changeResolution E s =
             Panicked index_out_of_range
               (s\<lparr>trace := trace s @
                    [Log Info ''getting available resolutions'' [],
                     Dev (GetDevicePropDesc DPC_NIKON_Resolution),
                     Log Info ''available resolutions (higher is larger): %v'' [A_uint64s []]]\<rparr>)"
    using assms
    by (simp add: changeResolution_def invoke_def and_then_def logf_def emit_def
        dev_history_append)
next
  assume ne: "vs \<noteq> []"
  obtain cs ok where a: "assert_uint64s (\<lambda>v. v) vs [] = (cs, ok)"
    by (cases "assert_uint64s (\<lambda>v. v) vs []") auto
  show "\<exists>r s'. changeResolution E s = Returned r s'"
  proof (cases ok)
    case False
    with a assms show ?thesis
      by (simp add: changeResolution_def invoke_def and_then_def logf_def emit_def
          dev_history_append)
  next
    case True
    with a ne have "cs \<noteq> []" using assert_uint64s_length [of "\<lambda>v. v" vs "[]" cs] by auto
    with a True assms show ?thesis
      by (cases "ResolutionType (model s)")
         (auto simp add: changeResolution_def invoke_def and_then_def logf_def emit_def
            dev_history_append Let_def split: option.splits)
  qed
qed

theorem changeResolution_empty_choices_panics_witness:
  "changeResolution mock_env (mock_server (resolution_device []) 384) =
     Panicked index_out_of_range
       ((mock_server (resolution_device []) 384)
          \<lparr>trace := [Log Info ''getting available resolutions'' [],
                     Dev (GetDevicePropDesc DPC_NIKON_Resolution),
                     Log Info ''available resolutions (higher is larger): %v'' [A_uint64s []]]\<rparr>)
   \<and> changeResolution mock_env
       (mock_server (resolution_device [V_uint64 1, V_uint64 2, V_uint64 3]) 384) =
     Returned None
       ((mock_server (resolution_device [V_uint64 1, V_uint64 2, V_uint64 3]) 384)
          \<lparr>trace := [Log Info ''getting available resolutions'' [],
                     Dev (GetDevicePropDesc DPC_NIKON_Resolution),
                     Log Info ''available resolutions (higher is larger): %v'' [A_uint64s [1, 2, 3]],
                     Log Info ''automatically use the largest choice: %d'' [A_int 3],
                     Dev (SetDevicePropValue DPC_NIKON_Resolution (Resolution64 3))]\<rparr>)"
  using changeResolution_empty_choices_panics
    [of "mock_server (resolution_device []) 384" "resolution_device []" _ "[]" mock_env]
    changeResolution_empty_choices_panics
    [of "mock_server (resolution_device [V_uint64 1, V_uint64 2, V_uint64 3]) 384"
        "resolution_device [V_uint64 1, V_uint64 2, V_uint64 3]" _
        "[V_uint64 1, V_uint64 2, V_uint64 3]" mock_env]
  by (simp add: mock_server_simps resolution_device_def mock_device_def mock_reply_def
      changeResolution_def invoke_def and_then_def logf_def emit_def mock_server_def
      NewLVServer_def mock_model_def)

end
